theory Spec2Isabelle
  imports Complex_Main "HOL-Library.Multiset" "HOL-Library.Char_ord" "HOL-Library.List_Lexorder"
begin

section \<open>ClassHub: the store and the request handlers of app.py\<close>

text \<open>
  The application is a set of Flask handlers over one SQLite database. Each handler is
  embedded as a function from the committed store and the request to the response and
  the committed store the request leaves behind. The clock
  (\<^verbatim>\<open>datetime.datetime.utcnow().isoformat()\<close>) and the password hash
  (\<^verbatim>\<open>generate_password_hash\<close>) are parameters. Text is \<^typ>\<open>string\<close>, read as
  ASCII. The tables of discussions and their posts are touched by none of the handlers
  below and are left out of the store.
\<close>

subsection \<open>Text helpers\<close>





text \<open>\<^verbatim>\<open>str(n)\<close> for an integer, as used by the f-strings that build field names.\<close>

definition digit_char :: "nat \<Rightarrow> char" where
  "digit_char d = char_of (48 + d)"

fun str_nat :: "nat \<Rightarrow> string" where
  "str_nat n = (if n < 10 then [digit_char n] else str_nat (n div 10) @ [digit_char (n mod 10)])"

declare str_nat.simps [simp del]

definition str_int :: "int \<Rightarrow> string" where
  "str_int i = (if i < 0 then CHR ''-'' # str_nat (nat (- i)) else str_nat (nat i))"

subsection \<open>Requests and responses\<close>

datatype http_method = GET | POST

text \<open>\<^verbatim>\<open>session["user"]\<close>: the identity kept at login.\<close>

record identity =
  ident_id :: int
  ident_name :: string
  ident_role :: string
  ident_email :: string

record request =
  req_method :: http_method
  form :: "string \<rightharpoonup> string"
  session_user :: "identity option"

text \<open>\<^verbatim>\<open>x or d\<close> on the result of \<^verbatim>\<open>request.form.get\<close>: None and the empty string are falsy.\<close>

definition truthy :: "string option \<Rightarrow> bool" where
  "truthy v = (case v of None \<Rightarrow> False | Some s \<Rightarrow> s \<noteq> [])"

definition or_else :: "string option \<Rightarrow> string \<Rightarrow> string" where
  "or_else v d = (case v of None \<Rightarrow> d | Some s \<Rightarrow> if s = [] then d else s)"

subsection \<open>Rows and the store\<close>

record user =
  u_id :: int
  u_name :: string
  u_email :: string
  u_password_hash :: string
  u_role :: string
  u_created_at :: string

record announcement =
  an_id :: int
  an_title :: string
  an_body :: string
  an_created_at :: string
  an_created_by :: "int option"

record assignment =
  as_id :: int
  as_title :: string
  as_description :: "string option"
  as_due_date :: "string option"
  as_created_at :: string
  as_created_by :: "int option"

text \<open>
  The score column is REAL; the grade handler binds the text of the form field to it,
  so the row keeps that text (None is NULL).
\<close>

record submission =
  sb_id :: int
  sb_assignment_id :: int
  sb_student_id :: int
  sb_content :: "string option"
  sb_submitted_at :: string
  sb_score :: "string option"
  sb_feedback :: "string option"

record quiz =
  qz_id :: int
  qz_title :: string
  qz_created_at :: string
  qz_created_by :: "int option"

record quiz_question =
  qq_id :: int
  qq_quiz_id :: int
  qq_prompt :: string
  qq_choice_a :: string
  qq_choice_b :: string
  qq_choice_c :: string
  qq_choice_d :: string
  qq_correct :: string

text \<open>The score of a response is REAL with default 0; it is kept as an exact rational.\<close>

record quiz_response =
  qr_id :: int
  qr_quiz_id :: int
  qr_student_id :: int
  qr_submitted_at :: string
  qr_score :: rat

record quiz_answer =
  qa_id :: int
  qa_response_id :: int
  qa_question_id :: int
  qa_answer :: "string option"

text \<open>Every table is the list of its rows in rowid order.\<close>

record db =
  t_users :: "user list"
  t_announcements :: "announcement list"
  t_assignments :: "assignment list"
  t_submissions :: "submission list"
  t_quizzes :: "quiz list"
  t_quiz_questions :: "quiz_question list"
  t_quiz_responses :: "quiz_response list"
  t_quiz_answers :: "quiz_answer list"

text \<open>
  INTEGER PRIMARY KEY AUTOINCREMENT: one more than the largest rowid used so far. No
  handler deletes a row, so that is the largest rowid present; an empty table starts at 1.
\<close>

definition next_rowid :: "int list \<Rightarrow> int" where
  "next_rowid ids = fold max ids 0 + 1"

text \<open>
  The exceptions a handler can meet: a constraint of the schema refused a statement, or
  \<^verbatim>\<open>fetchone()\<close> gave None and the handler subscripted it.
\<close>

datatype db_error = IntegrityError | TypeError

text \<open>
  A connection of Python's sqlite3 module: statements work on the pending state, commit
  publishes it, and closing the connection (the teardown of every request) drops what was
  not committed.
\<close>

record conn =
  committed :: db
  pending :: db

definition connect :: "db \<Rightarrow> conn" where
  "connect d = \<lparr>committed = d, pending = d\<rparr>"

definition commit :: "conn \<Rightarrow> conn" where
  "commit c = c\<lparr>committed := pending c\<rparr>"

definition close :: "conn \<Rightarrow> db" where
  "close c = committed c"

text \<open>
  A statement that fails changes nothing and raises; the connection it was run on is
  returned with the error, so that the caller closes that very connection.
\<close>

definition execute :: "(db \<Rightarrow> db_error + db) \<Rightarrow> conn \<Rightarrow> (db_error \<times> conn) + conn" where
  "execute stmt c =
     (case stmt (pending c) of Inl e \<Rightarrow> Inl (e, c) | Inr d \<Rightarrow> Inr (c\<lparr>pending := d\<rparr>))"

datatype endpoint =
    To_register | To_login | To_assignments | To_assignment_detail int
  | To_quizzes | To_quiz_take int

text \<open>The messages passed to \<^verbatim>\<open>flash\<close>, one constructor for each text of the source.\<close>

datatype flash =
    Fill_all_fields               \<comment> \<open>"Fill all fields correctly.", danger\<close>
  | Registration_successful       \<comment> \<open>"Registration successful. Please login.", success\<close>
  | Email_already_registered      \<comment> \<open>"Email already registered.", warning\<close>
  | Assignment_not_found          \<comment> \<open>"Assignment not found.", warning\<close>
  | Submission_saved              \<comment> \<open>"Submission saved.", success\<close>
  | Graded                        \<comment> \<open>"Graded.", success\<close>
  | Teacher_login_required        \<comment> \<open>"Teacher login required.", warning\<close>
  | Quiz_created                  \<comment> \<open>"Quiz created.", success\<close>
  | Quiz_not_found                \<comment> \<open>"Quiz not found.", warning\<close>
  | Student_login_required        \<comment> \<open>"Student login required.", warning\<close>
  | Already_submitted             \<comment> \<open>"You already submitted this quiz.", info\<close>
  | Quiz_submitted rat            \<comment> \<open>"Quiz submitted. Score: ...%", success\<close>

datatype view =
    Register_form
  | Announcements_view "(announcement \<times> string option) list"
  | Assignment_detail_view assignment "submission option" "(submission \<times> string option) list"
  | Quiz_form
  | Quiz_take_view quiz "quiz_question list" "(quiz_response \<times> string option) list"

text \<open>An exception that no handler catches ends the request with a server error.\<close>

datatype response =
    Redirect "flash option" endpoint
  | Render view
  | Server_error db_error

subsection \<open>Registration\<close>



subsection \<open>Announcements\<close>

text \<open>
  \<^verbatim>\<open>a LEFT JOIN users u ON a.created_by = u.id\<close>, selecting the row of \<open>a\<close> and
  \<^verbatim>\<open>u.name\<close>: one joined row for every matching user, and one with NULL when no user
  matches.
\<close>

definition left_join_users :: "('r \<Rightarrow> int option) \<Rightarrow> user list \<Rightarrow> 'r list \<Rightarrow> ('r \<times> string option) list" where
  "left_join_users fk us rows =
     concat (map (\<lambda>r. case filter (\<lambda>u. fk r = Some (u_id u)) us of
                          [] \<Rightarrow> [(r, None)]
                        | ms \<Rightarrow> map (\<lambda>u. (r, Some (u_name u))) ms) rows)"

text \<open>
  \<^verbatim>\<open>ORDER BY key DESC\<close> as SQLite runs it: the rows come in scan order (rowid
  order) and are sorted on the key alone by a stable sort, so no key comes before a
  larger one and rows with equal keys stay in scan order. The announcements page embeds
  this sort; the two detail views below take the ordering of their list as a parameter.
\<close>

definition order_desc_stable :: "('r \<Rightarrow> string) \<Rightarrow> 'r list \<Rightarrow> 'r list" where
  "order_desc_stable key rows = rev (sort_key key (rev rows))"

definition announcements :: "db \<Rightarrow> response" where
  "announcements d =
     Render (Announcements_view
       (order_desc_stable (\<lambda>r. an_created_at (fst r))
          (left_join_users an_created_by (t_users d) (t_announcements d))))"

subsection \<open>Assignments and submissions\<close>

text \<open>INSERT INTO submissions: the pair (assignment_id, student_id) is UNIQUE.\<close>

definition insert_submission :: "int \<Rightarrow> int \<Rightarrow> string \<Rightarrow> string \<Rightarrow> db \<Rightarrow> db_error + db" where
  "insert_submission aid uid content now d =
     (if \<exists>s \<in> set (t_submissions d). sb_assignment_id s = aid \<and> sb_student_id s = uid
      then Inl IntegrityError
      else Inr (d\<lparr>t_submissions := t_submissions d @
             [\<lparr>sb_id = next_rowid (map sb_id (t_submissions d)), sb_assignment_id = aid,
               sb_student_id = uid, sb_content = Some content, sb_submitted_at = now,
               sb_score = None, sb_feedback = None\<rparr>]\<rparr>))"

text \<open>\<^verbatim>\<open>UPDATE submissions SET content=?, submitted_at=? WHERE id=?\<close>\<close>

definition update_submission_content :: "string \<Rightarrow> string \<Rightarrow> int \<Rightarrow> db \<Rightarrow> db_error + db" where
  "update_submission_content content now sid d =
     Inr (d\<lparr>t_submissions :=
            map (\<lambda>s. if sb_id s = sid then s\<lparr>sb_content := Some content, sb_submitted_at := now\<rparr> else s)
                (t_submissions d)\<rparr>)"

text \<open>
  \<^verbatim>\<open>UPDATE submissions SET score=?, feedback=? WHERE id=?\<close> with the text of the form
  field \<open>sid\<close> bound to the id: \<open>rowid_of_text\<close> is the store's reading of that text as
  a rowid (INTEGER affinity), a parameter.
\<close>

definition update_submission_grade ::
  "(string \<Rightarrow> int option) \<Rightarrow> string option \<Rightarrow> string option \<Rightarrow> string \<Rightarrow> db \<Rightarrow> db_error + db" where
  "update_submission_grade rowid_of_text score feedback sid d =
     Inr (d\<lparr>t_submissions :=
            map (\<lambda>s. if rowid_of_text sid = Some (sb_id s)
                     then s\<lparr>sb_score := score, sb_feedback := feedback\<rparr> else s)
                (t_submissions d)\<rparr>)"

definition select_submission :: "int \<Rightarrow> int \<Rightarrow> db \<Rightarrow> submission option" where
  "select_submission aid uid d =
     find (\<lambda>s. sb_assignment_id s = aid \<and> sb_student_id s = uid) (t_submissions d)"

text \<open>
  The student's POST of \<^verbatim>\<open>assignment_detail\<close>: update the row found for the pair, or
  insert one.
\<close>

definition save_submission :: "string \<Rightarrow> int \<Rightarrow> int \<Rightarrow> string \<Rightarrow> conn \<Rightarrow> (db_error \<times> conn) + conn" where
  "save_submission now aid uid content c =
     (case select_submission aid uid (pending c) of
        Some ex \<Rightarrow> execute (update_submission_content content now (sb_id ex)) c
      | None \<Rightarrow> execute (insert_submission aid uid content now) c)"

definition assignment_detail ::
  "((submission \<times> string option) list \<Rightarrow> (submission \<times> string option) list) \<Rightarrow>
   (string \<Rightarrow> int option) \<Rightarrow> string \<Rightarrow> db \<Rightarrow> request \<Rightarrow> int \<Rightarrow> response \<times> db" where
  "assignment_detail order_by_submitted_at_desc rowid_of_text now d req aid =
     (let c = connect d in
      case find (\<lambda>a. as_id a = aid) (t_assignments (pending c)) of
        None \<Rightarrow> (Redirect (Some Assignment_not_found) To_assignments, close c)
      | Some a \<Rightarrow>
         (let student = (case session_user req of None \<Rightarrow> None
                         | Some u \<Rightarrow> if ident_role u = ''student'' then Some (ident_id u) else None);
              teacher = (case session_user req of None \<Rightarrow> False | Some u \<Rightarrow> ident_role u = ''teacher'');
              submission = (case student of None \<Rightarrow> None
                            | Some uid \<Rightarrow> select_submission aid uid (pending c))
          in
          (case (student, req_method req) of
            (Some uid, POST) \<Rightarrow>
              (case save_submission now aid uid (or_else (form req ''content'') []) c of
                 Inl (e, c1) \<Rightarrow> (Server_error e, close c1)
               | Inr c1 \<Rightarrow> (Redirect (Some Submission_saved) (To_assignment_detail aid), close (commit c1)))
          | _ \<Rightarrow>
              (let subs = (if teacher
                           then order_by_submitted_at_desc
                                  (left_join_users (\<lambda>s. Some (sb_student_id s)) (t_users (pending c))
                                     (filter (\<lambda>s. sb_assignment_id s = aid) (t_submissions (pending c))))
                           else [])
               in
               if teacher \<and> req_method req = POST \<and> truthy (form req ''sid'')
               then
                 (case execute (update_submission_grade rowid_of_text (form req ''score'')
                                  (form req ''feedback'') (or_else (form req ''sid'') [])) c of
                    Inl (e, c1) \<Rightarrow> (Server_error e, close c1)
                  | Inr c1 \<Rightarrow> (Redirect (Some Graded) (To_assignment_detail aid), close (commit c1)))
               else (Render (Assignment_detail_view a submission subs), close c)))))"

subsection \<open>Quizzes\<close>

definition insert_quiz :: "string \<Rightarrow> string \<Rightarrow> int \<Rightarrow> db \<Rightarrow> db_error + db" where
  "insert_quiz title now uid d =
     Inr (d\<lparr>t_quizzes := t_quizzes d @
            [\<lparr>qz_id = next_rowid (map qz_id (t_quizzes d)), qz_title = title,
              qz_created_at = now, qz_created_by = Some uid\<rparr>]\<rparr>)"

text \<open>
  INSERT INTO quiz_questions: the six text columns are NOT NULL and \<open>correct\<close> is
  checked against the four labels.
\<close>

definition insert_quiz_question ::
  "int \<Rightarrow> string option \<Rightarrow> string option \<Rightarrow> string option \<Rightarrow> string option \<Rightarrow> string option \<Rightarrow>
   string option \<Rightarrow> db \<Rightarrow> db_error + db" where
  "insert_quiz_question quiz_id prompt a b c' d' correct d =
     (case (prompt, a, b, c', d', correct) of
        (Some p, Some va, Some vb, Some vc, Some vd, Some k) \<Rightarrow>
          if k \<in> {''A'', ''B'', ''C'', ''D''}
          then Inr (d\<lparr>t_quiz_questions := t_quiz_questions d @
                 [\<lparr>qq_id = next_rowid (map qq_id (t_quiz_questions d)), qq_quiz_id = quiz_id,
                   qq_prompt = p, qq_choice_a = va, qq_choice_b = vb, qq_choice_c = vc,
                   qq_choice_d = vd, qq_correct = k\<rparr>]\<rparr>)
          else Inl IntegrityError
      | _ \<Rightarrow> Inl IntegrityError)"

text \<open>The field names \<^verbatim>\<open>f"q{i}_prompt"\<close>, \<^verbatim>\<open>f"q{i}_a"\<close> and so on.\<close>

definition question_field :: "nat \<Rightarrow> string \<Rightarrow> string" where
  "question_field i suffix = ''q'' @ str_nat i @ suffix"

text \<open>The test of the loop body of \<^verbatim>\<open>quiz_new\<close> on row \<open>i\<close> of the form.\<close>

definition row_filled :: "(string \<rightharpoonup> string) \<Rightarrow> nat \<Rightarrow> bool" where
  "row_filled f i =
     (truthy (f (question_field i ''_prompt'')) \<and> truthy (f (question_field i ''_a''))
      \<and> truthy (f (question_field i ''_b'')) \<and> truthy (f (question_field i ''_c''))
      \<and> truthy (f (question_field i ''_d''))
      \<and> f (question_field i ''_correct'') \<in> {Some ''A'', Some ''B'', Some ''C'', Some ''D''})"

text \<open>\<^verbatim>\<open>for i in range(1,6)\<close>, as a recursion over the list of the indices.\<close>

fun insert_questions ::
  "(string \<rightharpoonup> string) \<Rightarrow> int \<Rightarrow> nat list \<Rightarrow> conn \<Rightarrow> (db_error \<times> conn) + conn" where
  "insert_questions f quiz_id [] c = Inr c"
| "insert_questions f quiz_id (i # is) c =
     (if row_filled f i
      then (case execute (insert_quiz_question quiz_id
                    (f (question_field i ''_prompt'')) (f (question_field i ''_a''))
                    (f (question_field i ''_b'')) (f (question_field i ''_c''))
                    (f (question_field i ''_d'')) (f (question_field i ''_correct''))) c of
              Inl x \<Rightarrow> Inl x
            | Inr c1 \<Rightarrow> insert_questions f quiz_id is c1)
      else insert_questions f quiz_id is c)"

text \<open>\<^verbatim>\<open>SELECT id FROM quizzes ORDER BY id DESC LIMIT 1\<close>: the largest id, if any.\<close>

definition last_quiz_id :: "db \<Rightarrow> int option" where
  "last_quiz_id d = (case map qz_id (t_quizzes d) of [] \<Rightarrow> None | i # is \<Rightarrow> Some (fold max is i))"

definition quiz_new :: "string \<Rightarrow> db \<Rightarrow> request \<Rightarrow> response \<times> db" where
  "quiz_new now d req =
     (case session_user req of
        None \<Rightarrow> (Redirect (Some Teacher_login_required) To_login, d)
      | Some u \<Rightarrow>
          if ident_role u \<noteq> ''teacher'' then (Redirect (Some Teacher_login_required) To_login, d)
          else if req_method req = POST then
            (let c = connect d;
                 title = or_else (form req ''title'') ''Untitled Quiz''
             in case execute (insert_quiz title now (ident_id u)) c of
                  Inl (e, c1) \<Rightarrow> (Server_error e, close c1)
                | Inr c1 \<Rightarrow>
                    (let c2 = commit c1 in
                     case last_quiz_id (pending c2) of
                       None \<Rightarrow> (Server_error TypeError, close c2)
                     | Some quiz_id \<Rightarrow>
                         (case insert_questions (form req) quiz_id [1, 2, 3, 4, 5] c2 of
                            Inl (e, c3) \<Rightarrow> (Server_error e, close c3)
                          | Inr c3 \<Rightarrow> (Redirect (Some Quiz_created) To_quizzes, close (commit c3)))))
          else (Render Quiz_form, d))"

text \<open>INSERT INTO quiz_responses: (quiz_id, student_id) is UNIQUE, the score defaults to 0.\<close>

definition insert_quiz_response :: "int \<Rightarrow> int \<Rightarrow> string \<Rightarrow> db \<Rightarrow> db_error + db" where
  "insert_quiz_response qid uid now d =
     (if \<exists>r \<in> set (t_quiz_responses d). qr_quiz_id r = qid \<and> qr_student_id r = uid
      then Inl IntegrityError
      else Inr (d\<lparr>t_quiz_responses := t_quiz_responses d @
             [\<lparr>qr_id = next_rowid (map qr_id (t_quiz_responses d)), qr_quiz_id = qid,
               qr_student_id = uid, qr_submitted_at = now, qr_score = 0\<rparr>]\<rparr>))"

text \<open>INSERT INTO quiz_answers: the answer is NULL or one of the four labels.\<close>

definition answer_check :: "string option \<Rightarrow> bool" where
  "answer_check ans = (ans \<in> {None, Some ''A'', Some ''B'', Some ''C'', Some ''D''})"

definition insert_quiz_answer :: "int \<Rightarrow> int \<Rightarrow> string option \<Rightarrow> db \<Rightarrow> db_error + db" where
  "insert_quiz_answer rid question_id ans d =
     (if answer_check ans
      then Inr (d\<lparr>t_quiz_answers := t_quiz_answers d @
             [\<lparr>qa_id = next_rowid (map qa_id (t_quiz_answers d)), qa_response_id = rid,
               qa_question_id = question_id, qa_answer = ans\<rparr>]\<rparr>)
      else Inl IntegrityError)"

text \<open>\<^verbatim>\<open>UPDATE quiz_responses SET score=? WHERE id=?\<close>\<close>

definition update_response_score :: "rat \<Rightarrow> int \<Rightarrow> db \<Rightarrow> db_error + db" where
  "update_response_score pct rid d =
     Inr (d\<lparr>t_quiz_responses :=
            map (\<lambda>r. if qr_id r = rid then r\<lparr>qr_score := pct\<rparr> else r) (t_quiz_responses d)\<rparr>)"

definition select_response :: "int \<Rightarrow> int \<Rightarrow> db \<Rightarrow> quiz_response option" where
  "select_response qid uid d =
     find (\<lambda>r. qr_quiz_id r = qid \<and> qr_student_id r = uid) (t_quiz_responses d)"

text \<open>
  \<^verbatim>\<open>for q in questions\<close>: the answer to a question is the form field named q followed
  by the question's id; every answer is stored, the correct ones are counted.
\<close>

definition answer_field :: "quiz_question \<Rightarrow> string" where
  "answer_field q = ''q'' @ str_int (qq_id q)"

fun answer_questions ::
  "(string \<rightharpoonup> string) \<Rightarrow> int \<Rightarrow> quiz_question list \<Rightarrow> conn \<Rightarrow> rat \<Rightarrow> (db_error \<times> conn) + (conn \<times> rat)" where
  "answer_questions f rid [] c score = Inr (c, score)"
| "answer_questions f rid (q # qs) c score =
     (let ans = f (answer_field q) in
      case execute (insert_quiz_answer rid (qq_id q) ans) c of
        Inl x \<Rightarrow> Inl x
      | Inr c1 \<Rightarrow> answer_questions f rid qs c1 (if ans = Some (qq_correct q) then score + 1 else score))"

text \<open>\<^verbatim>\<open>len(questions) or 1\<close>\<close>

definition len_or_1 :: "'a list \<Rightarrow> nat" where
  "len_or_1 xs = (if length xs = 0 then 1 else length xs)"

text \<open>
  The student's POST of \<^verbatim>\<open>quiz_take\<close> once no earlier response was found: the
  response row, its answers, the score, and one commit at the end.
\<close>

definition submit_response ::
  "string \<Rightarrow> int \<Rightarrow> int \<Rightarrow> (string \<rightharpoonup> string) \<Rightarrow> quiz_question list \<Rightarrow> conn \<Rightarrow> response \<times> db" where
  "submit_response now qid uid f questions c =
     (case execute (insert_quiz_response qid uid now) c of
        Inl (e, c1) \<Rightarrow> (Server_error e, close c1)
      | Inr c1 \<Rightarrow>
          (case select_response qid uid (pending c1) of
             None \<Rightarrow> (Server_error TypeError, close c1)
           | Some r \<Rightarrow>
               (case answer_questions f (qr_id r) questions c1 0 of
                  Inl (e, c2) \<Rightarrow> (Server_error e, close c2)
                | Inr (c2, score) \<Rightarrow>
                    (let total = len_or_1 questions;
                         pct = (score / of_nat total) * 100
                     in case execute (update_response_score pct (qr_id r)) c2 of
                          Inl (e, c3) \<Rightarrow> (Server_error e, close c3)
                        | Inr c3 \<Rightarrow>
                            (Redirect (Some (Quiz_submitted pct)) To_quizzes, close (commit c3))))))"

definition quiz_take ::
  "((quiz_response \<times> string option) list \<Rightarrow> (quiz_response \<times> string option) list) \<Rightarrow>
   string \<Rightarrow> db \<Rightarrow> request \<Rightarrow> int \<Rightarrow> response \<times> db" where
  "quiz_take order_by_submitted_at_desc now d req qid =
     (let c = connect d in
      case find (\<lambda>q. qz_id q = qid) (t_quizzes (pending c)) of
        None \<Rightarrow> (Redirect (Some Quiz_not_found) To_quizzes, close c)
      | Some quiz \<Rightarrow>
         (let questions = filter (\<lambda>q. qq_quiz_id q = qid) (t_quiz_questions (pending c)) in
          if req_method req = POST then
            (case session_user req of
               None \<Rightarrow> (Redirect (Some Student_login_required) To_login, close c)
             | Some u \<Rightarrow>
                 if ident_role u \<noteq> ''student''
                 then (Redirect (Some Student_login_required) To_login, close c)
                 else
                   (case select_response qid (ident_id u) (pending c) of
                      Some ex \<Rightarrow> (Redirect (Some Already_submitted) (To_quiz_take qid), close c)
                    | None \<Rightarrow> submit_response now qid (ident_id u) (form req) questions c))
          else
            (let results = (case session_user req of
                              None \<Rightarrow> []
                            | Some u \<Rightarrow>
                                if ident_role u = ''teacher''
                                then order_by_submitted_at_desc
                                       (left_join_users (\<lambda>r. Some (qr_student_id r)) (t_users (pending c))
                                          (filter (\<lambda>r. qr_quiz_id r = qid) (t_quiz_responses (pending c))))
                                else [])
             in (Render (Quiz_take_view quiz questions results), close c))))"

subsection \<open>Sample stores and requests\<close>






text \<open>A reading of decimal text as a rowid, for the parameter of the grade statement.\<close>

definition decimal_rowid :: "string \<Rightarrow> int option" where
  "decimal_rowid s =
     (if s \<noteq> [] \<and> (\<forall>c \<in> set s. 48 \<le> (of_char c :: nat) \<and> (of_char c :: nat) \<le> 57)
      then Some (fold (\<lambda>c n. 10 * n + (int (of_char c) - 48)) s 0) else None)"

definition teacher_demo :: identity where
  "teacher_demo = \<lparr>ident_id = 1, ident_name = ''Teacher Demo'', ident_role = ''teacher'',
     ident_email = ''teacher@classhub.local''\<rparr>"

definition student_demo :: identity where
  "student_demo = \<lparr>ident_id = 2, ident_name = ''Student Demo'', ident_role = ''student'',
     ident_email = ''student@classhub.local''\<rparr>"

text \<open>
  A small class: a teacher and a student, one assignment with a graded submission of the
  student, and one quiz of three questions whose correct labels are A, B and C.
\<close>

definition class_db :: db where
  "class_db = \<lparr>
     t_users =
       [\<lparr>u_id = 1, u_name = ''Teacher Demo'', u_email = ''teacher@classhub.local'',
         u_password_hash = ''h1'', u_role = ''teacher'', u_created_at = ''2024-01-01T08:00:00''\<rparr>,
        \<lparr>u_id = 2, u_name = ''Student Demo'', u_email = ''student@classhub.local'',
         u_password_hash = ''h2'', u_role = ''student'', u_created_at = ''2024-01-01T08:00:00''\<rparr>],
     t_announcements = [],
     t_assignments =
       [\<lparr>as_id = 1, as_title = ''Sample Assignment'', as_description = Some ''Submit a paragraph.'',
         as_due_date = Some ''2024-01-08'', as_created_at = ''2024-01-01T08:00:00'',
         as_created_by = Some 1\<rparr>],
     t_submissions =
       [\<lparr>sb_id = 1, sb_assignment_id = 1, sb_student_id = 2, sb_content = Some ''first draft'',
         sb_submitted_at = ''2024-01-02T09:00:00'', sb_score = Some ''85'',
         sb_feedback = Some ''Good start''\<rparr>],
     t_quizzes =
       [\<lparr>qz_id = 1, qz_title = ''Orientation Quiz'', qz_created_at = ''2024-01-01T08:00:00'',
         qz_created_by = Some 1\<rparr>],
     t_quiz_questions =
       [\<lparr>qq_id = 1, qq_quiz_id = 1, qq_prompt = ''Theme colors are?'', qq_choice_a = ''Orange/White'',
         qq_choice_b = ''Green/Black'', qq_choice_c = ''Purple/Gold'', qq_choice_d = ''Blue/Gray'',
         qq_correct = ''A''\<rparr>,
        \<lparr>qq_id = 2, qq_quiz_id = 1, qq_prompt = ''ClassHub is?'', qq_choice_a = ''Bank'',
         qq_choice_b = ''Course hub'', qq_choice_c = ''Game'', qq_choice_d = ''Shop'',
         qq_correct = ''B''\<rparr>,
        \<lparr>qq_id = 3, qq_quiz_id = 1, qq_prompt = ''Who posts assignments?'', qq_choice_a = ''Parents'',
         qq_choice_b = ''Students'', qq_choice_c = ''Teachers'', qq_choice_d = ''Guests'',
         qq_correct = ''C''\<rparr>],
     t_quiz_responses = [],
     t_quiz_answers = []\<rparr>"

definition by_submitted_at :: "(submission \<times> string option) list \<Rightarrow> (submission \<times> string option) list" where
  "by_submitted_at = order_desc_stable (\<lambda>r. sb_submitted_at (fst r))"

definition by_response_time ::
  "(quiz_response \<times> string option) list \<Rightarrow> (quiz_response \<times> string option) list" where
  "by_response_time = order_desc_stable (\<lambda>r. qr_submitted_at (fst r))"

definition resubmit_request :: request where
  "resubmit_request = \<lparr>req_method = POST, form = [''content'' \<mapsto> ''second draft''],
     session_user = Some student_demo\<rparr>"

definition submit_request :: request where
  "submit_request = \<lparr>req_method = POST, form = [''content'' \<mapsto> ''first draft''],
     session_user = Some student_demo\<rparr>"

definition anonymous_post :: request where
  "anonymous_post = \<lparr>req_method = POST, form = [''content'' \<mapsto> ''from nobody''], session_user = None\<rparr>"

definition teacher_post_without_sid :: request where
  "teacher_post_without_sid = \<lparr>req_method = POST, form = [''score'' \<mapsto> ''90'', ''feedback'' \<mapsto> ''ok''],
     session_user = Some teacher_demo\<rparr>"

text \<open>The answers A, D, C to the quiz of the small class: the second one is wrong.\<close>

definition quiz_answers_request :: request where
  "quiz_answers_request = \<lparr>req_method = POST, form = [''q1'' \<mapsto> ''A'', ''q2'' \<mapsto> ''D'', ''q3'' \<mapsto> ''C''],
     session_user = Some student_demo\<rparr>"

text \<open>The same with a second answer that is no label at all.\<close>

definition quiz_answers_off_label :: request where
  "quiz_answers_off_label = \<lparr>req_method = POST, form = [''q1'' \<mapsto> ''A'', ''q2'' \<mapsto> ''X'', ''q3'' \<mapsto> ''C''],
     session_user = Some student_demo\<rparr>"

text \<open>
  A quiz form with rows 1 and 3 filled; row 2 lacks its fourth choice, row 4 names a
  label E, row 5 is absent.
\<close>

definition quiz_form_two_rows :: request where
  "quiz_form_two_rows = \<lparr>req_method = POST,
     form = [''title'' \<mapsto> ''Week 1'',
             ''q1_prompt'' \<mapsto> ''2 + 2?'', ''q1_a'' \<mapsto> ''3'', ''q1_b'' \<mapsto> ''4'', ''q1_c'' \<mapsto> ''5'',
             ''q1_d'' \<mapsto> ''6'', ''q1_correct'' \<mapsto> ''B'',
             ''q2_prompt'' \<mapsto> ''3 + 3?'', ''q2_a'' \<mapsto> ''5'', ''q2_b'' \<mapsto> ''6'', ''q2_c'' \<mapsto> ''7'',
             ''q2_d'' \<mapsto> '''', ''q2_correct'' \<mapsto> ''B'',
             ''q3_prompt'' \<mapsto> ''4 + 4?'', ''q3_a'' \<mapsto> ''8'', ''q3_b'' \<mapsto> ''9'', ''q3_c'' \<mapsto> ''10'',
             ''q3_d'' \<mapsto> ''11'', ''q3_correct'' \<mapsto> ''A'',
             ''q4_prompt'' \<mapsto> ''5 + 5?'', ''q4_a'' \<mapsto> ''8'', ''q4_b'' \<mapsto> ''9'', ''q4_c'' \<mapsto> ''10'',
             ''q4_d'' \<mapsto> ''11'', ''q4_correct'' \<mapsto> ''E''],
     session_user = Some teacher_demo\<rparr>"

text \<open>A quiz form with a title and a single row that has a prompt only.\<close>

definition quiz_form_no_rows :: request where
  "quiz_form_no_rows = \<lparr>req_method = POST,
     form = [''title'' \<mapsto> ''Week 2'', ''q1_prompt'' \<mapsto> ''To be written''],
     session_user = Some teacher_demo\<rparr>"

text \<open>
  A store with three announcements of the teacher: the first two carry the same
  timestamp, the third a later one.
\<close>

definition tied_announcements_db :: db where
  "tied_announcements_db = class_db\<lparr>t_announcements :=
     [\<lparr>an_id = 1, an_title = ''Welcome'', an_body = ''Hello'', an_created_at = ''2024-01-01T10:00:00'',
       an_created_by = Some 1\<rparr>,
      \<lparr>an_id = 2, an_title = ''Rooms'', an_body = ''Room 12'', an_created_at = ''2024-01-01T10:00:00'',
       an_created_by = Some 1\<rparr>,
      \<lparr>an_id = 3, an_title = ''Exam'', an_body = ''Friday'', an_created_at = ''2024-01-02T10:00:00'',
       an_created_by = None\<rparr>]\<rparr>"

section \<open>Facts about the store\<close>

lemma fold_max_ge: "(a::int) \<le> fold max ids a"
proof (induction ids arbitrary: a)
  case Nil
  show ?case by simp
next
  case (Cons x xs)
  have "a \<le> max x a" by simp
  also have "max x a \<le> fold max xs (max x a)" by (rule Cons.IH)
  finally show ?case by simp
qed

lemma fold_max_mem: "i \<in> set ids \<Longrightarrow> (i::int) \<le> fold max ids a"
proof (induction ids arbitrary: a)
  case Nil
  then show ?case by simp
next
  case (Cons x xs)
  show ?case
  proof (cases "i = x")
    case True
    have "x \<le> max x a" by simp
    also have "max x a \<le> fold max xs (max x a)" by (rule fold_max_ge)
    finally show ?thesis using True by simp
  next
    case False
    with Cons show ?thesis by simp
  qed
qed

lemma next_rowid_fresh: "i \<in> set ids \<Longrightarrow> i < next_rowid ids"
  using fold_max_mem[of i ids 0] by (simp add: next_rowid_def)



lemma close_connect: "close (connect d) = d"
  by (simp add: close_def connect_def)

lemma close_commit: "close (commit c) = pending c"
  by (simp add: close_def commit_def)

subsection \<open>Registration\<close>







subsection \<open>Assignments and submissions\<close>

lemma find_filter_hd: "find P xs = (case filter P xs of [] \<Rightarrow> None | x # _ \<Rightarrow> Some x)"
  by (induction xs) auto

lemma save_submission_update:
  assumes "select_submission aid uid (pending c) = Some ex"
  shows "save_submission now aid uid content c =
           Inr (c\<lparr>pending := (pending c)\<lparr>t_submissions :=
                  map (\<lambda>s. if sb_id s = sb_id ex
                           then s\<lparr>sb_content := Some content, sb_submitted_at := now\<rparr> else s)
                      (t_submissions (pending c))\<rparr>\<rparr>)"
  using assms by (simp add: save_submission_def execute_def update_submission_content_def)

lemma save_submission_insert:
  assumes "select_submission aid uid (pending c) = None"
  shows "save_submission now aid uid content c =
           Inr (c\<lparr>pending := (pending c)\<lparr>t_submissions := t_submissions (pending c) @
                  [\<lparr>sb_id = next_rowid (map sb_id (t_submissions (pending c))), sb_assignment_id = aid,
                    sb_student_id = uid, sb_content = Some content, sb_submitted_at = now,
                    sb_score = None, sb_feedback = None\<rparr>]\<rparr>\<rparr>)"
proof -
  from assms have "\<not> (\<exists>s \<in> set (t_submissions (pending c)). sb_assignment_id s = aid \<and> sb_student_id s = uid)"
    by (simp add: select_submission_def find_None_iff)
  with assms show ?thesis
    by (simp add: save_submission_def execute_def insert_submission_def)
qed

lemma student_post:
  assumes "find (\<lambda>a. as_id a = aid) (t_assignments d) = Some a"
    and "req_method req = POST"
    and "session_user req = Some u"
    and "ident_role u = ''student''"
  shows "assignment_detail ob rt now d req aid =
           (case save_submission now aid (ident_id u) (or_else (form req ''content'') []) (connect d) of
              Inl (e, c1) \<Rightarrow> (Server_error e, close c1)
            | Inr c1 \<Rightarrow> (Redirect (Some Submission_saved) (To_assignment_detail aid), close (commit c1)))"
  using assms by (simp add: assignment_detail_def Let_def connect_def)

text \<open>
  C7. When a student who already has a submission for an assignment posts again, the
  handler answers "Submission saved." and changes nothing in the store but the submissions
  table, where every row keeps its id, assignment, student, score and feedback; the row
  of this student and assignment is the old row with the new content and time.
\<close>

theorem resubmission_keeps_grade:
  assumes "find (\<lambda>a. as_id a = aid) (t_assignments d) = Some a"
    and "req_method req = POST"
    and "session_user req = Some u"
    and "ident_role u = ''student''"
    and "select_submission aid (ident_id u) d = Some ex"
    and "assignment_detail ob rt now d req aid = (resp, d')"
  shows "resp = Redirect (Some Submission_saved) (To_assignment_detail aid)
         \<and> d' = d\<lparr>t_submissions := t_submissions d'\<rparr>
         \<and> map sb_id (t_submissions d') = map sb_id (t_submissions d)
         \<and> map sb_assignment_id (t_submissions d') = map sb_assignment_id (t_submissions d)
         \<and> map sb_student_id (t_submissions d') = map sb_student_id (t_submissions d)
         \<and> map sb_score (t_submissions d') = map sb_score (t_submissions d)
         \<and> map sb_feedback (t_submissions d') = map sb_feedback (t_submissions d)
         \<and> select_submission aid (ident_id u) d'
             = Some (ex\<lparr>sb_content := Some (or_else (form req ''content'') []), sb_submitted_at := now\<rparr>)"
proof -
  let ?upd = "\<lambda>s. if sb_id s = sb_id ex
                   then s\<lparr>sb_content := Some (or_else (form req ''content'') []), sb_submitted_at := now\<rparr>
                   else s"
  have ex: "select_submission aid (ident_id u) (pending (connect d)) = Some ex"
    using assms(5) by (simp add: connect_def)
  have res: "resp = Redirect (Some Submission_saved) (To_assignment_detail aid)"
    and d': "d' = d\<lparr>t_submissions := map ?upd (t_submissions d)\<rparr>"
    using assms(6) unfolding student_post[OF assms(1-4)] save_submission_update[OF ex]
    by (simp_all add: close_commit connect_def)
  have cols: "map sb_id (map ?upd xs) = map sb_id xs"
      "map sb_assignment_id (map ?upd xs) = map sb_assignment_id xs"
      "map sb_student_id (map ?upd xs) = map sb_student_id xs"
      "map sb_score (map ?upd xs) = map sb_score xs"
      "map sb_feedback (map ?upd xs) = map sb_feedback xs" for xs
    by (induction xs) simp_all
  have sel: "find (\<lambda>s. sb_assignment_id s = aid \<and> sb_student_id s = uid) xs = Some ex \<Longrightarrow>
             find (\<lambda>s. sb_assignment_id s = aid \<and> sb_student_id s = uid) (map ?upd xs) = Some (?upd ex)" for xs uid
    by (induction xs) (auto split: if_splits)
  have "select_submission aid (ident_id u) d' = Some (?upd ex)"
    using sel[of "ident_id u" "t_submissions d"] assms(5) by (simp add: select_submission_def d')
  with res d' cols show ?thesis by simp
qed
theorem resubmission_keeps_grade_witness:
  "select_submission 1 2 class_db
     = Some \<lparr>sb_id = 1, sb_assignment_id = 1, sb_student_id = 2, sb_content = Some ''first draft'',
             sb_submitted_at = ''2024-01-02T09:00:00'', sb_score = Some ''85'',
             sb_feedback = Some ''Good start''\<rparr>
   \<and> select_submission 1 2
        (snd (assignment_detail by_submitted_at decimal_rowid ''2024-01-03T09:00:00'' class_db
                resubmit_request 1))
     = Some \<lparr>sb_id = 1, sb_assignment_id = 1, sb_student_id = 2, sb_content = Some ''second draft'',
             sb_submitted_at = ''2024-01-03T09:00:00'', sb_score = Some ''85'',
             sb_feedback = Some ''Good start''\<rparr>
   \<and> map sb_score (t_submissions
        (snd (assignment_detail by_submitted_at decimal_rowid ''2024-01-03T09:00:00'' class_db
                resubmit_request 1))) = [Some ''85'']"
proof -
  let ?r = "assignment_detail by_submitted_at decimal_rowid ''2024-01-03T09:00:00'' class_db
              resubmit_request 1"
  have a: "find (\<lambda>a. as_id a = 1) (t_assignments class_db) = Some (hd (t_assignments class_db))"
    by (simp add: class_db_def)
  have r: "req_method resubmit_request = POST" "session_user resubmit_request = Some student_demo"
    "ident_role student_demo = ''student''"
    by (simp_all add: resubmit_request_def student_demo_def)
  have ex: "select_submission 1 (ident_id student_demo) class_db
     = Some \<lparr>sb_id = 1, sb_assignment_id = 1, sb_student_id = 2, sb_content = Some ''first draft'',
             sb_submitted_at = ''2024-01-02T09:00:00'', sb_score = Some ''85'',
             sb_feedback = Some ''Good start''\<rparr>"
    by (simp add: select_submission_def class_db_def student_demo_def)
  have c: "or_else (form resubmit_request ''content'') [] = ''second draft''"
    by (simp add: resubmit_request_def or_else_def)
  have s: "map sb_score (t_submissions class_db) = [Some ''85'']"
    by (simp add: class_db_def)
  show ?thesis
    using resubmission_keeps_grade[OF a r ex, of by_submitted_at decimal_rowid
        "''2024-01-03T09:00:00''" "fst ?r" "snd ?r"] ex c s
    by (simp add: student_demo_def)
qed

lemma submit_step:
  assumes a: "find (\<lambda>a. as_id a = aid) (t_assignments d) = Some a"
    and post: "req_method req = POST"
    and u: "session_user req = Some u" "ident_role u = ''student''"
    and uniq: "length (filter (\<lambda>s. sb_assignment_id s = aid \<and> sb_student_id s = ident_id u) (t_submissions d)) \<le> 1"
  shows "fst (assignment_detail ob rt now d req aid) = Redirect (Some Submission_saved) (To_assignment_detail aid)"
    and "t_assignments (snd (assignment_detail ob rt now d req aid)) = t_assignments d"
    and "map sb_content (filter (\<lambda>s. sb_assignment_id s = aid \<and> sb_student_id s = ident_id u)
            (t_submissions (snd (assignment_detail ob rt now d req aid))))
         = [Some (or_else (form req ''content'') [])]"
    and "length (t_submissions (snd (assignment_detail ob rt now d req aid)))
         = length (t_submissions d)
           + (if filter (\<lambda>s. sb_assignment_id s = aid \<and> sb_student_id s = ident_id u) (t_submissions d) = []
              then 1 else 0)"
proof -
  let ?P = "\<lambda>s. sb_assignment_id s = aid \<and> sb_student_id s = ident_id u"
  let ?c = "or_else (form req ''content'') []"
  let ?r = "assignment_detail ob rt now d req aid"
  note step = student_post[OF a post u, of ob rt now]
  have all: "fst ?r = Redirect (Some Submission_saved) (To_assignment_detail aid)
     \<and> t_assignments (snd ?r) = t_assignments d
     \<and> map sb_content (filter ?P (t_submissions (snd ?r))) = [Some ?c]
     \<and> length (t_submissions (snd ?r)) = length (t_submissions d) + (if filter ?P (t_submissions d) = [] then 1 else 0)"
  proof (cases "select_submission aid (ident_id u) d")
    case None
    then have none: "filter ?P (t_submissions d) = []"
      by (auto simp: select_submission_def find_None_iff filter_empty_conv)
    from None have "select_submission aid (ident_id u) (pending (connect d)) = None"
      by (simp add: connect_def)
    from save_submission_insert[OF this, of now ?c] none show ?thesis
      unfolding step by (simp add: close_commit connect_def)
  next
    case (Some ex)
    let ?upd = "\<lambda>s. if sb_id s = sb_id ex then s\<lparr>sb_content := Some ?c, sb_submitted_at := now\<rparr> else s"
    from Some have hd: "filter ?P (t_submissions d) \<noteq> [] \<and> hd (filter ?P (t_submissions d)) = ex"
      by (auto simp: select_submission_def find_filter_hd split: list.splits)
    with uniq have one: "filter ?P (t_submissions d) = [ex]"
      by (cases "filter ?P (t_submissions d)") auto
    have fm: "filter ?P (map ?upd xs) = map ?upd (filter ?P xs)" for xs
      by (induction xs) auto
    have cont: "map sb_content (filter ?P (map ?upd (t_submissions d))) = [Some ?c]"
      unfolding fm one by simp
    from Some have "select_submission aid (ident_id u) (pending (connect d)) = Some ex"
      by (simp add: connect_def)
    from save_submission_update[OF this, of now ?c] cont one show ?thesis
      unfolding step by (simp add: close_commit connect_def)
  qed
  from all show "fst ?r = Redirect (Some Submission_saved) (To_assignment_detail aid)" by simp
  from all show "t_assignments (snd ?r) = t_assignments d" by simp
  from all show "map sb_content (filter ?P (t_submissions (snd ?r))) = [Some ?c]" by simp
  from all show "length (t_submissions (snd ?r)) = length (t_submissions d) + (if filter ?P (t_submissions d) = [] then 1 else 0)"
    by simp
qed

text \<open>
  C2. Take an assignment that exists and a student, and a store with at most one
  submission for the pair (the UNIQUE constraint). After any non-empty sequence of
  submissions posted by the student for the assignment, the store holds exactly one
  submission for the pair, with the content of the last one posted; the table has grown
  by one row if the pair had none at the start and by no row if it had one.
\<close>

theorem submit_twice_one_row:
  assumes "find (\<lambda>a. as_id a = aid) (t_assignments d) = Some a"
    and "\<forall>(now, req) \<in> set reqs. req_method req = POST \<and>
           (\<exists>u. session_user req = Some u \<and> ident_role u = ''student'' \<and> ident_id u = uid)"
    and "reqs \<noteq> []"
    and "length (filter (\<lambda>s. sb_assignment_id s = aid \<and> sb_student_id s = uid) (t_submissions d)) \<le> 1"
  shows "map sb_content (filter (\<lambda>s. sb_assignment_id s = aid \<and> sb_student_id s = uid)
            (t_submissions (fold (\<lambda>(now, req) d. snd (assignment_detail ob rt now d req aid)) reqs d)))
           = [Some (or_else (form (snd (last reqs)) ''content'') [])]
         \<and> length (t_submissions (fold (\<lambda>(now, req) d. snd (assignment_detail ob rt now d req aid)) reqs d))
           = length (t_submissions d)
             + (if filter (\<lambda>s. sb_assignment_id s = aid \<and> sb_student_id s = uid) (t_submissions d) = []
                then 1 else 0)"
  using assms
proof (induction reqs arbitrary: d)
  case Nil
  then show ?case by simp
next
  case (Cons r rs)
  let ?P = "\<lambda>s. sb_assignment_id s = aid \<and> sb_student_id s = uid"
  obtain now req where r: "r = (now, req)" by (cases r)
  from Cons.prems(2) r obtain u where u: "req_method req = POST" "session_user req = Some u"
      "ident_role u = ''student''" "ident_id u = uid"
    by auto
  let ?d1 = "snd (assignment_detail ob rt now d req aid)"
  from Cons.prems(4) u(4)
  have uniq: "length (filter (\<lambda>s. sb_assignment_id s = aid \<and> sb_student_id s = ident_id u) (t_submissions d)) \<le> 1"
    by simp
  note st = submit_step[OF Cons.prems(1) u(1) u(2) u(3) uniq, of ob rt now, unfolded u(4)]
  show ?case
  proof (cases "rs = []")
    case True
    with st r show ?thesis by simp
  next
    case False
    have a1: "find (\<lambda>a. as_id a = aid) (t_assignments ?d1) = Some a"
      using st(2) Cons.prems(1) by simp
    have all: "\<forall>(now, req) \<in> set rs. req_method req = POST \<and>
           (\<exists>u. session_user req = Some u \<and> ident_role u = ''student'' \<and> ident_id u = uid)"
      using Cons.prems(2) by simp
    from st(3) have "length (map sb_content (filter ?P (t_submissions ?d1))) = 1"
      by simp
    then have len1: "length (filter ?P (t_submissions ?d1)) = 1"
      by simp
    then have le: "length (filter ?P (t_submissions ?d1)) \<le> 1" and ne: "filter ?P (t_submissions ?d1) \<noteq> []"
      by auto
    from Cons.IH[OF a1 all False le] ne st(4) False r show ?thesis
      by simp
  qed
qed
theorem submit_twice_one_row_witness:
  "length (filter (\<lambda>s. sb_assignment_id s = 1 \<and> sb_student_id s = 2)
      (t_submissions (class_db\<lparr>t_submissions := []\<rparr>))) \<le> 1
   \<and> map sb_content (filter (\<lambda>s. sb_assignment_id s = 1 \<and> sb_student_id s = 2)
        (t_submissions (fold (\<lambda>(now, req) d. snd (assignment_detail by_submitted_at decimal_rowid now d req 1))
           [(''2024-01-02T09:00:00'', submit_request), (''2024-01-03T09:00:00'', resubmit_request)]
           (class_db\<lparr>t_submissions := []\<rparr>))))
      = [Some ''second draft'']
   \<and> length (t_submissions (fold (\<lambda>(now, req) d. snd (assignment_detail by_submitted_at decimal_rowid now d req 1))
           [(''2024-01-02T09:00:00'', submit_request), (''2024-01-03T09:00:00'', resubmit_request)]
           (class_db\<lparr>t_submissions := []\<rparr>))) = 1"
proof -
  have a: "find (\<lambda>a. as_id a = 1) (t_assignments (class_db\<lparr>t_submissions := []\<rparr>))
             = Some (hd (t_assignments class_db))"
    by (simp add: class_db_def)
  have rs: "\<forall>(now, req) \<in> set [(''2024-01-02T09:00:00'', submit_request), (''2024-01-03T09:00:00'', resubmit_request)].
              req_method req = POST \<and>
              (\<exists>u. session_user req = Some u \<and> ident_role u = ''student'' \<and> ident_id u = 2)"
    by (simp add: submit_request_def resubmit_request_def student_demo_def)
  have ne: "[(''2024-01-02T09:00:00'', submit_request), (''2024-01-03T09:00:00'', resubmit_request)] \<noteq> []"
    by simp
  have le: "length (filter (\<lambda>s. sb_assignment_id s = 1 \<and> sb_student_id s = 2)
      (t_submissions (class_db\<lparr>t_submissions := []\<rparr>))) \<le> 1"
    by simp
  have c: "or_else (form resubmit_request ''content'') [] = ''second draft''"
    by (simp add: resubmit_request_def or_else_def)
  show ?thesis
    using submit_twice_one_row[OF a rs ne le, of by_submitted_at decimal_rowid] c
    by simp
qed

text \<open>
  C10. For an assignment that exists, a POST of \<^verbatim>\<open>assignment_detail\<close> with no session, or
  with a session that is not a student's and, when it is a teacher's, carries no
  submission id, leaves the store as it was and renders the detail view: no redirect to
  the login page, no error. The view shows no submission of the requester, and the list
  of submissions only to a teacher.
\<close>

theorem unauthorised_post_renders_detail:
  assumes "find (\<lambda>a. as_id a = aid) (t_assignments d) = Some a"
    and "req_method req = POST"
    and "case session_user req of
           None \<Rightarrow> True
         | Some u \<Rightarrow> ident_role u \<noteq> ''student''
                     \<and> (ident_role u = ''teacher'' \<longrightarrow> \<not> truthy (form req ''sid''))"
  shows "assignment_detail ob rt now d req aid =
           (Render (Assignment_detail_view a None
              (case session_user req of
                 None \<Rightarrow> []
               | Some u \<Rightarrow>
                   if ident_role u = ''teacher''
                   then ob (left_join_users (\<lambda>s. Some (sb_student_id s)) (t_users d)
                              (filter (\<lambda>s. sb_assignment_id s = aid) (t_submissions d)))
                   else [])), d)"
  using assms
  by (auto simp: assignment_detail_def Let_def connect_def close_def split: option.splits)

theorem unauthorised_post_renders_detail_witness:
  "assignment_detail by_submitted_at decimal_rowid ''2024-01-03T09:00:00'' class_db anonymous_post 1
     = (Render (Assignment_detail_view (hd (t_assignments class_db)) None []), class_db)
   \<and> assignment_detail by_submitted_at decimal_rowid ''2024-01-03T09:00:00'' class_db
        teacher_post_without_sid 1
     = (Render (Assignment_detail_view (hd (t_assignments class_db)) None
          [(hd (t_submissions class_db), Some ''Student Demo'')]), class_db)"
proof -
  have a: "find (\<lambda>a. as_id a = 1) (t_assignments class_db) = Some (hd (t_assignments class_db))"
    by (simp add: class_db_def)
  have p: "req_method anonymous_post = POST" "req_method teacher_post_without_sid = POST"
    by (simp_all add: anonymous_post_def teacher_post_without_sid_def)
  have n: "case session_user anonymous_post of
           None \<Rightarrow> True
         | Some u \<Rightarrow> ident_role u \<noteq> ''student''
                     \<and> (ident_role u = ''teacher'' \<longrightarrow> \<not> truthy (form anonymous_post ''sid''))"
    by (simp add: anonymous_post_def)
  have t: "case session_user teacher_post_without_sid of
           None \<Rightarrow> True
         | Some u \<Rightarrow> ident_role u \<noteq> ''student''
                     \<and> (ident_role u = ''teacher'' \<longrightarrow> \<not> truthy (form teacher_post_without_sid ''sid''))"
    by (simp add: teacher_post_without_sid_def teacher_demo_def truthy_def)
  have subs: "by_submitted_at (left_join_users (\<lambda>s. Some (sb_student_id s)) (t_users class_db)
                 (filter (\<lambda>s. sb_assignment_id s = 1) (t_submissions class_db)))
              = [(hd (t_submissions class_db), Some ''Student Demo'')]"
    by (simp add: by_submitted_at_def order_desc_stable_def left_join_users_def class_db_def)
  show ?thesis
    using unauthorised_post_renders_detail[OF a p(1) n, of by_submitted_at decimal_rowid "''2024-01-03T09:00:00''"]
      unauthorised_post_renders_detail[OF a p(2) t, of by_submitted_at decimal_rowid "''2024-01-03T09:00:00''"]
      subs
    by (simp add: anonymous_post_def teacher_post_without_sid_def teacher_demo_def)
qed

subsection \<open>Quizzes\<close>

lemma find_app: "find P (xs @ ys) = (case find P xs of None \<Rightarrow> find P ys | Some x \<Rightarrow> Some x)"
  by (induction xs) auto

lemma answer_questions_ok:
  assumes "\<forall>q \<in> set qs. answer_check (f (answer_field q))"
  shows "\<exists>rows. answer_questions f rid qs c score
           = Inr (c\<lparr>pending := (pending c)\<lparr>t_quiz_answers := t_quiz_answers (pending c) @ rows\<rparr>\<rparr>,
                  score + of_nat (length (filter (\<lambda>q. f (answer_field q) = Some (qq_correct q)) qs)))
         \<and> map (\<lambda>a. (qa_response_id a, qa_question_id a, qa_answer a)) rows
             = map (\<lambda>q. (rid, qq_id q, f (answer_field q))) qs"
  using assms
proof (induction qs arbitrary: c score)
  case Nil
  show ?case by (rule exI[of _ "[]"]) simp
next
  case (Cons q qs)
  let ?row = "\<lparr>qa_id = next_rowid (map qa_id (t_quiz_answers (pending c))), qa_response_id = rid,
                qa_question_id = qq_id q, qa_answer = f (answer_field q)\<rparr>"
  let ?c1 = "c\<lparr>pending := (pending c)\<lparr>t_quiz_answers := t_quiz_answers (pending c) @ [?row]\<rparr>\<rparr>"
  let ?s1 = "if f (answer_field q) = Some (qq_correct q) then score + 1 else score"
  from Cons.prems have ok: "answer_check (f (answer_field q))" and rest: "\<forall>q \<in> set qs. answer_check (f (answer_field q))"
    by simp_all
  have step: "answer_questions f rid (q # qs) c score = answer_questions f rid qs ?c1 ?s1"
    using ok by (simp add: Let_def execute_def insert_quiz_answer_def)
  from Cons.IH[OF rest, of ?c1 ?s1] obtain rows where
    rows: "answer_questions f rid qs ?c1 ?s1
             = Inr (?c1\<lparr>pending := (pending ?c1)\<lparr>t_quiz_answers := t_quiz_answers (pending ?c1) @ rows\<rparr>\<rparr>,
                    ?s1 + of_nat (length (filter (\<lambda>q. f (answer_field q) = Some (qq_correct q)) qs)))"
      "map (\<lambda>a. (qa_response_id a, qa_question_id a, qa_answer a)) rows
             = map (\<lambda>q. (rid, qq_id q, f (answer_field q))) qs"
    by blast
  show ?case
    apply (rule exI[of _ "?row # rows"])
    apply (simp only: step rows(1))
    apply (simp add: rows(2))
    done
qed

lemma answer_questions_fail:
  assumes "\<not> (\<forall>q \<in> set qs. answer_check (f (answer_field q)))"
  shows "\<exists>c'. answer_questions f rid qs c score = Inl (IntegrityError, c') \<and> committed c' = committed c"
  using assms
proof (induction qs arbitrary: c score)
  case Nil
  then show ?case by simp
next
  case (Cons q qs)
  show ?case
  proof (cases "answer_check (f (answer_field q))")
    case False
    then show ?thesis by (simp add: Let_def execute_def insert_quiz_answer_def)
  next
    case True
    let ?row = "\<lparr>qa_id = next_rowid (map qa_id (t_quiz_answers (pending c))), qa_response_id = rid,
                  qa_question_id = qq_id q, qa_answer = f (answer_field q)\<rparr>"
    let ?c1 = "c\<lparr>pending := (pending c)\<lparr>t_quiz_answers := t_quiz_answers (pending c) @ [?row]\<rparr>\<rparr>"
    let ?s1 = "if f (answer_field q) = Some (qq_correct q) then score + 1 else score"
    have step: "answer_questions f rid (q # qs) c score = answer_questions f rid qs ?c1 ?s1"
      using True by (simp add: Let_def execute_def insert_quiz_answer_def)
    from True Cons.prems have "\<not> (\<forall>q \<in> set qs. answer_check (f (answer_field q)))"
      by simp
    from Cons.IH[OF this, of ?c1 ?s1] show ?thesis
      by (simp only: step) simp
  qed
qed

lemma quiz_take_student_post:
  assumes "find (\<lambda>q. qz_id q = qid) (t_quizzes d) = Some quiz"
    and "req_method req = POST"
    and "session_user req = Some u"
    and "ident_role u = ''student''"
    and "select_response qid (ident_id u) d = None"
  shows "quiz_take ob now d req qid
           = submit_response now qid (ident_id u) (form req)
               (filter (\<lambda>q. qq_quiz_id q = qid) (t_quiz_questions d)) (connect d)"
  using assms by (simp add: quiz_take_def Let_def connect_def)

lemma submit_response_ok:
  assumes none: "select_response qid uid d = None"
    and ok: "\<forall>q \<in> set qs. answer_check (f (answer_field q))"
  shows "\<exists>rows. submit_response now qid uid f qs (connect d)
           = (Redirect (Some (Quiz_submitted
                 (of_nat (length (filter (\<lambda>q. f (answer_field q) = Some (qq_correct q)) qs))
                    / of_nat (max (length qs) 1) * 100))) To_quizzes,
              d\<lparr>t_quiz_responses := t_quiz_responses d @
                   [\<lparr>qr_id = next_rowid (map qr_id (t_quiz_responses d)), qr_quiz_id = qid,
                     qr_student_id = uid, qr_submitted_at = now,
                     qr_score = of_nat (length (filter (\<lambda>q. f (answer_field q) = Some (qq_correct q)) qs))
                                  / of_nat (max (length qs) 1) * 100\<rparr>],
                 t_quiz_answers := t_quiz_answers d @ rows\<rparr>)
         \<and> map (\<lambda>a. (qa_response_id a, qa_question_id a, qa_answer a)) rows
             = map (\<lambda>q. (next_rowid (map qr_id (t_quiz_responses d)), qq_id q, f (answer_field q))) qs"
proof -
  let ?rid = "next_rowid (map qr_id (t_quiz_responses d))"
  let ?r0 = "\<lparr>qr_id = ?rid, qr_quiz_id = qid, qr_student_id = uid, qr_submitted_at = now, qr_score = 0\<rparr>"
  let ?c1 = "(connect d)\<lparr>pending := d\<lparr>t_quiz_responses := t_quiz_responses d @ [?r0]\<rparr>\<rparr>"
  let ?n = "length (filter (\<lambda>q. f (answer_field q) = Some (qq_correct q)) qs)"
  let ?pct = "(of_nat ?n :: rat) / of_nat (max (length qs) 1) * 100"
  from none have free: "\<not> (\<exists>r \<in> set (t_quiz_responses d). qr_quiz_id r = qid \<and> qr_student_id r = uid)"
    by (simp add: select_response_def find_None_iff)
  then have ins: "execute (insert_quiz_response qid uid now) (connect d) = Inr ?c1"
    by (simp add: execute_def insert_quiz_response_def connect_def)
  have sel: "select_response qid uid (d\<lparr>t_quiz_responses := t_quiz_responses d @ [?r0]\<rparr>) = Some ?r0"
    using none by (simp add: select_response_def find_app split: option.splits)
  from answer_questions_ok[OF ok, of ?rid ?c1 0] obtain rows where
    rows: "answer_questions f ?rid qs ?c1 0
             = Inr (?c1\<lparr>pending := (pending ?c1)\<lparr>t_quiz_answers := t_quiz_answers (pending ?c1) @ rows\<rparr>\<rparr>,
                    of_nat ?n)"
      "map (\<lambda>a. (qa_response_id a, qa_question_id a, qa_answer a)) rows
             = map (\<lambda>q. (?rid, qq_id q, f (answer_field q))) qs"
    by auto
  have total: "len_or_1 qs = max (length qs) 1"
    by (cases qs) (simp_all add: len_or_1_def)
  have upd: "execute (update_response_score p ?rid) c2
               = Inr (c2\<lparr>pending := (pending c2)\<lparr>t_quiz_responses :=
                        map (\<lambda>r. if qr_id r = ?rid then r\<lparr>qr_score := p\<rparr> else r)
                            (t_quiz_responses (pending c2))\<rparr>\<rparr>)" for p c2
    by (simp add: execute_def update_response_score_def)
  have old: "map (\<lambda>r. if qr_id r = ?rid then r\<lparr>qr_score := p\<rparr> else r) (t_quiz_responses d) = t_quiz_responses d" for p
  proof (rule map_idI)
    fix r assume "r \<in> set (t_quiz_responses d)"
    then have "qr_id r < ?rid" by (intro next_rowid_fresh) simp
    then show "(if qr_id r = ?rid then r\<lparr>qr_score := p\<rparr> else r) = r" by simp
  qed
  show ?thesis
    apply (rule exI[of _ rows])
    apply (simp add: submit_response_def ins sel rows Let_def upd close_commit old total del: of_nat_max)
    done
qed

lemma submit_response_fail:
  assumes none: "select_response qid uid d = None"
    and bad: "\<not> (\<forall>q \<in> set qs. answer_check (f (answer_field q)))"
  shows "submit_response now qid uid f qs (connect d) = (Server_error IntegrityError, d)"
proof -
  let ?rid = "next_rowid (map qr_id (t_quiz_responses d))"
  let ?r0 = "\<lparr>qr_id = ?rid, qr_quiz_id = qid, qr_student_id = uid, qr_submitted_at = now, qr_score = 0\<rparr>"
  let ?c1 = "(connect d)\<lparr>pending := d\<lparr>t_quiz_responses := t_quiz_responses d @ [?r0]\<rparr>\<rparr>"
  from none have free: "\<not> (\<exists>r \<in> set (t_quiz_responses d). qr_quiz_id r = qid \<and> qr_student_id r = uid)"
    by (simp add: select_response_def find_None_iff)
  then have ins: "execute (insert_quiz_response qid uid now) (connect d) = Inr ?c1"
    by (simp add: execute_def insert_quiz_response_def connect_def)
  have sel: "select_response qid uid (d\<lparr>t_quiz_responses := t_quiz_responses d @ [?r0]\<rparr>) = Some ?r0"
    using none by (simp add: select_response_def find_app split: option.splits)
  from answer_questions_fail[OF bad, of ?rid ?c1 0] obtain c' where
    c': "answer_questions f ?rid qs ?c1 0 = Inl (IntegrityError, c')" and "committed c' = committed ?c1"
    by auto
  then have "close c' = d"
    by (simp add: close_def connect_def)
  then show ?thesis
    by (simp add: submit_response_def ins sel c')
qed

text \<open>
  C3. When the quiz exists and the store already holds a response of the student to it,
  the student's POST of \<^verbatim>\<open>quiz_take\<close> is answered with
  "You already submitted this quiz." and a redirect back to the quiz, and the store is
  left as it was: no response row and no answer row is added.
\<close>

theorem second_quiz_attempt_rejected:
  assumes "find (\<lambda>q. qz_id q = qid) (t_quizzes d) = Some quiz"
    and "req_method req = POST"
    and "session_user req = Some u"
    and "ident_role u = ''student''"
    and "select_response qid (ident_id u) d = Some ex"
  shows "quiz_take ob now d req qid = (Redirect (Some Already_submitted) (To_quiz_take qid), d)"
  using assms by (simp add: quiz_take_def Let_def connect_def close_def)

theorem second_quiz_attempt_rejected_witness:
  "fst (quiz_take by_response_time ''2024-01-04T09:00:00'' class_db quiz_answers_request 1)
     = Redirect (Some (Quiz_submitted (200 / 3))) To_quizzes
   \<and> quiz_take by_response_time ''2024-01-05T09:00:00''
       (snd (quiz_take by_response_time ''2024-01-04T09:00:00'' class_db quiz_answers_request 1))
       quiz_answers_request 1
     = (Redirect (Some Already_submitted) (To_quiz_take 1),
        snd (quiz_take by_response_time ''2024-01-04T09:00:00'' class_db quiz_answers_request 1))"
proof -
  let ?d1 = "snd (quiz_take by_response_time ''2024-01-04T09:00:00'' class_db quiz_answers_request 1)"
  have first: "fst (quiz_take by_response_time ''2024-01-04T09:00:00'' class_db quiz_answers_request 1)
     = Redirect (Some (Quiz_submitted (200 / 3))) To_quizzes"
    by code_simp
  have q: "find (\<lambda>q. qz_id q = 1) (t_quizzes ?d1) = Some (hd (t_quizzes class_db))"
    by code_simp
  have r: "req_method quiz_answers_request = POST" "session_user quiz_answers_request = Some student_demo"
     "ident_role student_demo = ''student''"
    by (simp_all add: quiz_answers_request_def student_demo_def)
  have ex: "select_response 1 (ident_id student_demo) ?d1
     = Some \<lparr>qr_id = 1, qr_quiz_id = 1, qr_student_id = 2, qr_submitted_at = ''2024-01-04T09:00:00'',
             qr_score = 200 / 3\<rparr>"
    by code_simp
  show ?thesis
    using second_quiz_attempt_rejected[OF q r ex, of by_response_time "''2024-01-05T09:00:00''"] first
    by simp
qed

text \<open>
  C1. A student's first submission to a quiz whose answers all pass the check of the
  answers table is answered with "Quiz submitted" and stores a response whose score is
  the number of questions of the quiz answered with their correct label, divided by the
  number of questions (or by 1 when there is none), times 100. Whatever the answers are,
  a response found for the pair after the request has that score. Scores are exact
  rationals here.
\<close>

theorem quiz_score_formula:
  assumes "find (\<lambda>q. qz_id q = qid) (t_quizzes d) = Some quiz"
    and "req_method req = POST"
    and "session_user req = Some u"
    and "ident_role u = ''student''"
    and "select_response qid (ident_id u) d = None"
    and "questions = filter (\<lambda>q. qq_quiz_id q = qid) (t_quiz_questions d)"
    and "pct = of_nat (length (filter (\<lambda>q. form req (answer_field q) = Some (qq_correct q)) questions))
                 / of_nat (max (length questions) 1) * 100"
  shows "((\<forall>q \<in> set questions. answer_check (form req (answer_field q))) \<longrightarrow>
            fst (quiz_take ob now d req qid) = Redirect (Some (Quiz_submitted pct)) To_quizzes
            \<and> select_response qid (ident_id u) (snd (quiz_take ob now d req qid))
                = Some \<lparr>qr_id = next_rowid (map qr_id (t_quiz_responses d)), qr_quiz_id = qid,
                        qr_student_id = ident_id u, qr_submitted_at = now, qr_score = pct\<rparr>)
         \<and> (\<forall>r. select_response qid (ident_id u) (snd (quiz_take ob now d req qid)) = Some r
                \<longrightarrow> qr_score r = pct)"
proof -
  let ?row = "\<lparr>qr_id = next_rowid (map qr_id (t_quiz_responses d)), qr_quiz_id = qid,
                qr_student_id = ident_id u, qr_submitted_at = now, qr_score = pct\<rparr>"
  note post = quiz_take_student_post[OF assms(1-5), of ob now, folded assms(6)]
  show ?thesis
  proof (cases "\<forall>q \<in> set questions. answer_check (form req (answer_field q))")
    case True
    from submit_response_ok[OF assms(5) True, of now, folded assms(7)] obtain rows where
      "quiz_take ob now d req qid
         = (Redirect (Some (Quiz_submitted pct)) To_quizzes,
            d\<lparr>t_quiz_responses := t_quiz_responses d @ [?row],
              t_quiz_answers := t_quiz_answers d @ rows\<rparr>)"
      unfolding post by blast
    moreover have "select_response qid (ident_id u) (d\<lparr>t_quiz_responses := t_quiz_responses d @ [?row],
              t_quiz_answers := t_quiz_answers d @ rows\<rparr>) = Some ?row"
      using assms(5) by (simp add: select_response_def find_app)
    ultimately show ?thesis by simp
  next
    case False
    from submit_response_fail[OF assms(5) False, of now] have "snd (quiz_take ob now d req qid) = d"
      unfolding post by simp
    with assms(5) False show ?thesis by simp
  qed
qed

theorem quiz_score_formula_witness:
  "fst (quiz_take by_response_time ''2024-01-04T09:00:00'' class_db quiz_answers_request 1)
     = Redirect (Some (Quiz_submitted (2 / 3 * 100))) To_quizzes
   \<and> select_response 1 2 (snd (quiz_take by_response_time ''2024-01-04T09:00:00'' class_db quiz_answers_request 1))
     = Some \<lparr>qr_id = 1, qr_quiz_id = 1, qr_student_id = 2, qr_submitted_at = ''2024-01-04T09:00:00'',
             qr_score = 2 / 3 * 100\<rparr>
   \<and> \<bar>(2 / 3 * 100 :: rat) - 667 / 10\<bar> < 1 / 20"
proof -
  let ?qs = "filter (\<lambda>q. qq_quiz_id q = 1) (t_quiz_questions class_db)"
  have q: "find (\<lambda>q. qz_id q = 1) (t_quizzes class_db) = Some (hd (t_quizzes class_db))"
    by (simp add: class_db_def)
  have r: "req_method quiz_answers_request = POST" "session_user quiz_answers_request = Some student_demo"
     "ident_role student_demo = ''student''"
    by (simp_all add: quiz_answers_request_def student_demo_def)
  have none: "select_response 1 (ident_id student_demo) class_db = None"
    by (simp add: select_response_def class_db_def)
  have pct: "(2 / 3 * 100 :: rat)
      = of_nat (length (filter (\<lambda>q. form quiz_answers_request (answer_field q) = Some (qq_correct q)) ?qs))
          / of_nat (max (length ?qs) 1) * 100"
    by code_simp
  have ok: "\<forall>q \<in> set ?qs. answer_check (form quiz_answers_request (answer_field q))"
    by code_simp
  have id: "next_rowid (map qr_id (t_quiz_responses class_db)) = 1" "ident_id student_demo = 2"
    by (simp_all add: class_db_def next_rowid_def student_demo_def)
  show ?thesis
    using quiz_score_formula[OF q r none refl pct, of by_response_time "''2024-01-04T09:00:00''"] ok id
    by simp
qed

text \<open>
  C5. A student's first submission to a quiz that exists ends in one of two ways. If every
  answer passes the check of the answers table, the committed store gains the response
  row with the computed score and one answer row for every question of the quiz, in
  order, and nothing else changes. If some answer does not, the statement that inserts
  it raises, the request ends with a server error before any commit, and the committed
  store is exactly what it was: no response row, no answer row.
\<close>

theorem quiz_submission_atomic:
  assumes "find (\<lambda>q. qz_id q = qid) (t_quizzes d) = Some quiz"
    and "req_method req = POST"
    and "session_user req = Some u"
    and "ident_role u = ''student''"
    and "select_response qid (ident_id u) d = None"
    and "questions = filter (\<lambda>q. qq_quiz_id q = qid) (t_quiz_questions d)"
    and "quiz_take ob now d req qid = (resp, d')"
  shows "if \<forall>q \<in> set questions. answer_check (form req (answer_field q))
         then resp = Redirect (Some (Quiz_submitted
                (of_nat (length (filter (\<lambda>q. form req (answer_field q) = Some (qq_correct q)) questions))
                   / of_nat (max (length questions) 1) * 100))) To_quizzes
              \<and> d' = d\<lparr>t_quiz_responses := t_quiz_responses d @
                        [\<lparr>qr_id = next_rowid (map qr_id (t_quiz_responses d)), qr_quiz_id = qid,
                          qr_student_id = ident_id u, qr_submitted_at = now,
                          qr_score = of_nat (length (filter (\<lambda>q. form req (answer_field q) = Some (qq_correct q)) questions))
                                       / of_nat (max (length questions) 1) * 100\<rparr>],
                      t_quiz_answers := t_quiz_answers d'\<rparr>
              \<and> take (length (t_quiz_answers d)) (t_quiz_answers d') = t_quiz_answers d
              \<and> map (\<lambda>a. (qa_response_id a, qa_question_id a, qa_answer a))
                    (drop (length (t_quiz_answers d)) (t_quiz_answers d'))
                  = map (\<lambda>q. (next_rowid (map qr_id (t_quiz_responses d)), qq_id q, form req (answer_field q)))
                      questions
         else resp = Server_error IntegrityError \<and> d' = d"
proof -
  note post = quiz_take_student_post[OF assms(1-5), of ob now, folded assms(6)]
  show ?thesis
  proof (cases "\<forall>q \<in> set questions. answer_check (form req (answer_field q))")
    case True
    from submit_response_ok[OF assms(5) True, of now] assms(7) True show ?thesis
      unfolding post by auto
  next
    case False
    from submit_response_fail[OF assms(5) False, of now] assms(7) False show ?thesis
      unfolding post by simp
  qed
qed

theorem quiz_submission_atomic_witness:
  "quiz_take by_response_time ''2024-01-04T09:00:00'' class_db quiz_answers_request 1
     = (Redirect (Some (Quiz_submitted (200 / 3))) To_quizzes,
        class_db\<lparr>t_quiz_responses :=
                   [\<lparr>qr_id = 1, qr_quiz_id = 1, qr_student_id = 2,
                     qr_submitted_at = ''2024-01-04T09:00:00'', qr_score = 200 / 3\<rparr>],
                 t_quiz_answers :=
                   [\<lparr>qa_id = 1, qa_response_id = 1, qa_question_id = 1, qa_answer = Some ''A''\<rparr>,
                    \<lparr>qa_id = 2, qa_response_id = 1, qa_question_id = 2, qa_answer = Some ''D''\<rparr>,
                    \<lparr>qa_id = 3, qa_response_id = 1, qa_question_id = 3, qa_answer = Some ''C''\<rparr>]\<rparr>)
   \<and> quiz_take by_response_time ''2024-01-04T09:00:00'' class_db quiz_answers_off_label 1
     = (Server_error IntegrityError, class_db)"
proof -
  let ?qs = "filter (\<lambda>q. qq_quiz_id q = 1) (t_quiz_questions class_db)"
  let ?good = "quiz_take by_response_time ''2024-01-04T09:00:00'' class_db quiz_answers_request 1"
  let ?bad = "quiz_take by_response_time ''2024-01-04T09:00:00'' class_db quiz_answers_off_label 1"
  have q: "find (\<lambda>q. qz_id q = 1) (t_quizzes class_db) = Some (hd (t_quizzes class_db))"
    by (simp add: class_db_def)
  have r: "req_method quiz_answers_request = POST" "session_user quiz_answers_request = Some student_demo"
     "ident_role student_demo = ''student''"
    by (simp_all add: quiz_answers_request_def student_demo_def)
  have r': "req_method quiz_answers_off_label = POST" "session_user quiz_answers_off_label = Some student_demo"
    by (simp_all add: quiz_answers_off_label_def)
  have none: "select_response 1 (ident_id student_demo) class_db = None"
    by (simp add: select_response_def class_db_def)
  have ok: "\<forall>q \<in> set ?qs. answer_check (form quiz_answers_request (answer_field q))"
    by code_simp
  have bad: "\<not> (\<forall>q \<in> set ?qs. answer_check (form quiz_answers_off_label (answer_field q)))"
    by code_simp
  have g: "?good = (fst ?good, snd ?good)" and b: "?bad = (fst ?bad, snd ?bad)"
    by simp_all
  have stored: "?good = (Redirect (Some (Quiz_submitted (200 / 3))) To_quizzes,
        class_db\<lparr>t_quiz_responses :=
                   [\<lparr>qr_id = 1, qr_quiz_id = 1, qr_student_id = 2,
                     qr_submitted_at = ''2024-01-04T09:00:00'', qr_score = 200 / 3\<rparr>],
                 t_quiz_answers :=
                   [\<lparr>qa_id = 1, qa_response_id = 1, qa_question_id = 1, qa_answer = Some ''A''\<rparr>,
                    \<lparr>qa_id = 2, qa_response_id = 1, qa_question_id = 2, qa_answer = Some ''D''\<rparr>,
                    \<lparr>qa_id = 3, qa_response_id = 1, qa_question_id = 3, qa_answer = Some ''C''\<rparr>]\<rparr>)"
    by code_simp
  have "?bad = (Server_error IntegrityError, class_db)"
    using quiz_submission_atomic[OF q r'(1) r'(2) r(3) none refl b] bad
    by (simp add: prod_eq_iff)
  with stored show ?thesis by simp
qed

lemma fold_max_le: "a \<le> m \<Longrightarrow> \<forall>x \<in> set ids. x \<le> m \<Longrightarrow> fold max ids a \<le> (m::int)"
  by (induction ids arbitrary: a) auto

lemma last_quiz_id_insert:
  "last_quiz_id (d\<lparr>t_quizzes := t_quizzes d @
      [\<lparr>qz_id = next_rowid (map qz_id (t_quizzes d)), qz_title = title, qz_created_at = now,
        qz_created_by = by\<rparr>]\<rparr>) = Some (next_rowid (map qz_id (t_quizzes d)))"
proof (cases "map qz_id (t_quizzes d)")
  case Nil
  then show ?thesis by (simp add: last_quiz_id_def)
next
  case (Cons i ids)
  let ?n = "next_rowid (map qz_id (t_quizzes d))"
  have "\<forall>x \<in> set (i # ids). x \<le> ?n"
    using next_rowid_fresh[of _ "map qz_id (t_quizzes d)"] Cons by (auto simp: less_imp_le)
  then have "fold max ids i \<le> ?n"
    by (intro fold_max_le) simp_all
  then show ?thesis
    using Cons by (simp add: last_quiz_id_def max_def)
qed

lemma insert_questions_rows:
  "\<exists>rows. insert_questions f qid is c
            = Inr (c\<lparr>pending := (pending c)\<lparr>t_quiz_questions := t_quiz_questions (pending c) @ rows\<rparr>\<rparr>)
     \<and> map (\<lambda>q. (qq_quiz_id q, Some (qq_prompt q), Some (qq_choice_a q), Some (qq_choice_b q),
                   Some (qq_choice_c q), Some (qq_choice_d q), Some (qq_correct q))) rows
       = map (\<lambda>i. (qid, f (question_field i ''_prompt''), f (question_field i ''_a''),
                    f (question_field i ''_b''), f (question_field i ''_c''),
                    f (question_field i ''_d''), f (question_field i ''_correct'')))
           (filter (row_filled f) is)"
proof (induction "is" arbitrary: c)
  case Nil
  show ?case by (rule exI[of _ "[]"]) simp
next
  case (Cons i "is")
  show ?case
  proof (cases "row_filled f i")
    case False
    with Cons.IH[of c] show ?thesis by simp
  next
    case True
    then obtain p va vb vc vd k where flds:
      "f (question_field i ''_prompt'') = Some p" "f (question_field i ''_a'') = Some va"
      "f (question_field i ''_b'') = Some vb" "f (question_field i ''_c'') = Some vc"
      "f (question_field i ''_d'') = Some vd" "f (question_field i ''_correct'') = Some k"
      "k \<in> {''A'', ''B'', ''C'', ''D''}"
      by (auto simp: row_filled_def truthy_def split: option.splits)
    let ?row = "\<lparr>qq_id = next_rowid (map qq_id (t_quiz_questions (pending c))), qq_quiz_id = qid,
                  qq_prompt = p, qq_choice_a = va, qq_choice_b = vb, qq_choice_c = vc,
                  qq_choice_d = vd, qq_correct = k\<rparr>"
    let ?c1 = "c\<lparr>pending := (pending c)\<lparr>t_quiz_questions := t_quiz_questions (pending c) @ [?row]\<rparr>\<rparr>"
    have ins: "execute (insert_quiz_question qid (Some p) (Some va) (Some vb) (Some vc) (Some vd) (Some k)) c
                 = Inr ?c1"
      using flds(7) by (simp add: execute_def insert_quiz_question_def)
    have step: "insert_questions f qid (i # is) c = insert_questions f qid is ?c1"
      using True by (simp add: flds ins)
    from Cons.IH[of ?c1] obtain rows where
      rows: "insert_questions f qid is ?c1
               = Inr (?c1\<lparr>pending := (pending ?c1)\<lparr>t_quiz_questions := t_quiz_questions (pending ?c1) @ rows\<rparr>\<rparr>)"
        "map (\<lambda>q. (qq_quiz_id q, Some (qq_prompt q), Some (qq_choice_a q), Some (qq_choice_b q),
                   Some (qq_choice_c q), Some (qq_choice_d q), Some (qq_correct q))) rows
         = map (\<lambda>i. (qid, f (question_field i ''_prompt''), f (question_field i ''_a''),
                    f (question_field i ''_b''), f (question_field i ''_c''),
                    f (question_field i ''_d''), f (question_field i ''_correct'')))
             (filter (row_filled f) is)"
      by blast
    show ?thesis
      apply (rule exI[of _ "?row # rows"])
      apply (simp only: step rows(1))
      apply (simp add: rows(2) True flds)
      done
  qed
qed

lemma quiz_new_teacher_post:
  assumes "session_user req = Some u"
    and "ident_role u = ''teacher''"
    and "req_method req = POST"
  shows "\<exists>rows. quiz_new now d req
           = (Redirect (Some Quiz_created) To_quizzes,
              d\<lparr>t_quizzes := t_quizzes d @
                   [\<lparr>qz_id = next_rowid (map qz_id (t_quizzes d)),
                     qz_title = or_else (form req ''title'') ''Untitled Quiz'',
                     qz_created_at = now, qz_created_by = Some (ident_id u)\<rparr>],
                 t_quiz_questions := t_quiz_questions d @ rows\<rparr>)
     \<and> map (\<lambda>q. (qq_quiz_id q, Some (qq_prompt q), Some (qq_choice_a q), Some (qq_choice_b q),
                   Some (qq_choice_c q), Some (qq_choice_d q), Some (qq_correct q))) rows
       = map (\<lambda>i. (next_rowid (map qz_id (t_quizzes d)), form req (question_field i ''_prompt''),
                    form req (question_field i ''_a''), form req (question_field i ''_b''),
                    form req (question_field i ''_c''), form req (question_field i ''_d''),
                    form req (question_field i ''_correct'')))
           (filter (row_filled (form req)) [1, 2, 3, 4, 5])"
proof -
  let ?qid = "next_rowid (map qz_id (t_quizzes d))"
  let ?quiz = "\<lparr>qz_id = ?qid, qz_title = or_else (form req ''title'') ''Untitled Quiz'',
                 qz_created_at = now, qz_created_by = Some (ident_id u)\<rparr>"
  let ?d1 = "d\<lparr>t_quizzes := t_quizzes d @ [?quiz]\<rparr>"
  let ?c2 = "\<lparr>committed = ?d1, pending = ?d1\<rparr>"
  have ins: "execute (insert_quiz (or_else (form req ''title'') ''Untitled Quiz'') now (ident_id u)) (connect d)
               = Inr ((connect d)\<lparr>pending := ?d1\<rparr>)"
    by (simp add: execute_def insert_quiz_def connect_def)
  have c2: "commit ((connect d)\<lparr>pending := ?d1\<rparr>) = ?c2"
    by (simp add: commit_def connect_def)
  have last: "last_quiz_id (pending ?c2) = Some ?qid"
    using last_quiz_id_insert[of d] by simp
  from insert_questions_rows[of "form req" ?qid "[1, 2, 3, 4, 5]" ?c2] obtain rows where
    rows: "insert_questions (form req) ?qid [1, 2, 3, 4, 5] ?c2
             = Inr (?c2\<lparr>pending := (pending ?c2)\<lparr>t_quiz_questions := t_quiz_questions (pending ?c2) @ rows\<rparr>\<rparr>)"
      "map (\<lambda>q. (qq_quiz_id q, Some (qq_prompt q), Some (qq_choice_a q), Some (qq_choice_b q),
                   Some (qq_choice_c q), Some (qq_choice_d q), Some (qq_correct q))) rows
       = map (\<lambda>i. (?qid, form req (question_field i ''_prompt''),
                    form req (question_field i ''_a''), form req (question_field i ''_b''),
                    form req (question_field i ''_c''), form req (question_field i ''_d''),
                    form req (question_field i ''_correct'')))
           (filter (row_filled (form req)) [1, 2, 3, 4, 5])"
    by blast
  have run: "quiz_new now d req
           = (Redirect (Some Quiz_created) To_quizzes,
              close (commit (?c2\<lparr>pending := (pending ?c2)\<lparr>t_quiz_questions := t_quiz_questions (pending ?c2) @ rows\<rparr>\<rparr>)))"
    using assms unfolding quiz_new_def Let_def
    by (simp only: ins c2 last rows(1) option.case sum.case if_True if_False simp_thms)
  show ?thesis
    apply (rule exI[of _ rows])
    apply (simp add: run rows(2) close_commit)
    done
qed

text \<open>
  C6. A teacher's POST of \<^verbatim>\<open>quiz_new\<close> is answered with "Quiz created.", and the
  questions table gains, after its old rows, one row for each of the rows 1 to 5 of the
  form that passes the test of the loop (prompt and four choices present and not empty,
  correct label one of A, B, C, D), in order, with the fields of that row and the id of
  the new quiz; rows that fail the test add nothing and raise nothing. So a form with
  exactly two such rows adds exactly two question rows.
\<close>

theorem quiz_new_persists_filled_rows:
  assumes "session_user req = Some u"
    and "ident_role u = ''teacher''"
    and "req_method req = POST"
    and "quiz_new now d req = (resp, d')"
  shows "resp = Redirect (Some Quiz_created) To_quizzes
         \<and> take (length (t_quiz_questions d)) (t_quiz_questions d') = t_quiz_questions d
         \<and> map (\<lambda>q. (qq_quiz_id q, Some (qq_prompt q), Some (qq_choice_a q), Some (qq_choice_b q),
                       Some (qq_choice_c q), Some (qq_choice_d q), Some (qq_correct q)))
               (drop (length (t_quiz_questions d)) (t_quiz_questions d'))
             = map (\<lambda>i. (next_rowid (map qz_id (t_quizzes d)), form req (question_field i ''_prompt''),
                          form req (question_field i ''_a''), form req (question_field i ''_b''),
                          form req (question_field i ''_c''), form req (question_field i ''_d''),
                          form req (question_field i ''_correct'')))
                 (filter (row_filled (form req)) [1, 2, 3, 4, 5])
         \<and> length (t_quiz_questions d')
             = length (t_quiz_questions d) + length (filter (row_filled (form req)) [1, 2, 3, 4, 5])"
proof -
  from quiz_new_teacher_post[OF assms(1-3), of now d] assms(4) obtain rows where
    r: "resp = Redirect (Some Quiz_created) To_quizzes"
       "t_quiz_questions d' = t_quiz_questions d @ rows"
    and m: "map (\<lambda>q. (qq_quiz_id q, Some (qq_prompt q), Some (qq_choice_a q), Some (qq_choice_b q),
                   Some (qq_choice_c q), Some (qq_choice_d q), Some (qq_correct q))) rows
       = map (\<lambda>i. (next_rowid (map qz_id (t_quizzes d)), form req (question_field i ''_prompt''),
                    form req (question_field i ''_a''), form req (question_field i ''_b''),
                    form req (question_field i ''_c''), form req (question_field i ''_d''),
                    form req (question_field i ''_correct'')))
           (filter (row_filled (form req)) [1, 2, 3, 4, 5])"
    by auto
  from m have "length rows = length (filter (row_filled (form req)) [1, 2, 3, 4, 5])"
    by (rule map_eq_imp_length_eq)
  with r m show ?thesis by simp
qed

theorem quiz_new_persists_filled_rows_witness:
  "filter (row_filled (form quiz_form_two_rows)) [1, 2, 3, 4, 5] = [1, 3]
   \<and> fst (quiz_new ''2024-01-06T09:00:00'' class_db quiz_form_two_rows)
       = Redirect (Some Quiz_created) To_quizzes
   \<and> length (t_quiz_questions (snd (quiz_new ''2024-01-06T09:00:00'' class_db quiz_form_two_rows)))
       = length (t_quiz_questions class_db) + 2
   \<and> map qq_prompt (drop 3 (t_quiz_questions (snd (quiz_new ''2024-01-06T09:00:00'' class_db quiz_form_two_rows))))
       = [''2 + 2?'', ''4 + 4?'']"
proof -
  let ?r = "quiz_new ''2024-01-06T09:00:00'' class_db quiz_form_two_rows"
  have s: "session_user quiz_form_two_rows = Some teacher_demo" "ident_role teacher_demo = ''teacher''"
    "req_method quiz_form_two_rows = POST"
    by (simp_all add: quiz_form_two_rows_def teacher_demo_def)
  have two: "filter (row_filled (form quiz_form_two_rows)) [1, 2, 3, 4, 5] = [1, 3]"
    by code_simp
  have len: "length (t_quiz_questions class_db) = 3"
    by (simp add: class_db_def)
  have prompts: "map qq_prompt (drop 3 (t_quiz_questions (snd ?r))) = [''2 + 2?'', ''4 + 4?'']"
    by code_simp
  from quiz_new_persists_filled_rows[OF s, of "''2024-01-06T09:00:00''" class_db "fst ?r" "snd ?r"]
  have "fst ?r = Redirect (Some Quiz_created) To_quizzes"
    "length (t_quiz_questions (snd ?r)) = length (t_quiz_questions class_db) + 2"
    unfolding two by simp_all
  with two prompts show ?thesis
    by simp
qed

text \<open>
  C9. In a teacher's POST of \<^verbatim>\<open>quiz_new\<close> the first commit publishes the store with
  the new quiz row and nothing else, before the loop over the question rows runs; and
  whatever the form holds, the store the request leaves behind has that quiz row after
  the old ones. When no row of the form passes the test of the loop the request is still
  answered with "Quiz created.", the questions table is unchanged, and (in a store whose
  questions all belong to quizzes of the store) the new quiz has no question.
\<close>

theorem quiz_row_committed_without_questions:
  assumes "session_user req = Some u"
    and "ident_role u = ''teacher''"
    and "req_method req = POST"
    and "new_quiz = \<lparr>qz_id = next_rowid (map qz_id (t_quizzes d)),
                      qz_title = or_else (form req ''title'') ''Untitled Quiz'',
                      qz_created_at = now, qz_created_by = Some (ident_id u)\<rparr>"
  shows "(case execute (insert_quiz (or_else (form req ''title'') ''Untitled Quiz'') now (ident_id u)) (connect d) of
            Inl x \<Rightarrow> None
          | Inr c1 \<Rightarrow> Some (close (commit c1))) = Some (d\<lparr>t_quizzes := t_quizzes d @ [new_quiz]\<rparr>)
         \<and> t_quizzes (snd (quiz_new now d req)) = t_quizzes d @ [new_quiz]
         \<and> (filter (row_filled (form req)) [1, 2, 3, 4, 5] = [] \<longrightarrow>
              quiz_new now d req
                = (Redirect (Some Quiz_created) To_quizzes, d\<lparr>t_quizzes := t_quizzes d @ [new_quiz]\<rparr>)
              \<and> ((\<forall>q \<in> set (t_quiz_questions d). qq_quiz_id q \<in> qz_id ` set (t_quizzes d)) \<longrightarrow>
                   filter (\<lambda>q. qq_quiz_id q = qz_id new_quiz)
                     (t_quiz_questions (snd (quiz_new now d req))) = []))"
proof -
  have first: "(case execute (insert_quiz (or_else (form req ''title'') ''Untitled Quiz'') now (ident_id u)) (connect d) of
            Inl x \<Rightarrow> None
          | Inr c1 \<Rightarrow> Some (close (commit c1))) = Some (d\<lparr>t_quizzes := t_quizzes d @ [new_quiz]\<rparr>)"
    by (simp add: execute_def insert_quiz_def close_commit connect_def assms(4))
  from quiz_new_teacher_post[OF assms(1-3), of now d] obtain rows where
    run: "quiz_new now d req
           = (Redirect (Some Quiz_created) To_quizzes,
              d\<lparr>t_quizzes := t_quizzes d @ [new_quiz], t_quiz_questions := t_quiz_questions d @ rows\<rparr>)"
    and m: "length rows = length (filter (row_filled (form req)) [1, 2, 3, 4, 5])"
    unfolding assms(4) by (auto dest: map_eq_imp_length_eq)
  have fresh: "\<forall>q \<in> set (t_quiz_questions d). qq_quiz_id q \<in> qz_id ` set (t_quizzes d) \<Longrightarrow>
               filter (\<lambda>q. qq_quiz_id q = qz_id new_quiz) (t_quiz_questions d) = []"
  proof -
    assume ref: "\<forall>q \<in> set (t_quiz_questions d). qq_quiz_id q \<in> qz_id ` set (t_quizzes d)"
    have "qq_quiz_id q \<noteq> qz_id new_quiz" if "q \<in> set (t_quiz_questions d)" for q
    proof -
      from ref that have "qq_quiz_id q \<in> set (map qz_id (t_quizzes d))" by simp
      then have "qq_quiz_id q < next_rowid (map qz_id (t_quizzes d))" by (rule next_rowid_fresh)
      then show ?thesis by (simp add: assms(4))
    qed
    then show ?thesis by (simp add: filter_empty_conv)
  qed
  from first run m fresh show ?thesis
    by auto
qed

theorem quiz_row_committed_without_questions_witness:
  "filter (row_filled (form quiz_form_no_rows)) [1, 2, 3, 4, 5] = []
   \<and> quiz_new ''2024-01-06T09:00:00'' class_db quiz_form_no_rows
       = (Redirect (Some Quiz_created) To_quizzes,
          class_db\<lparr>t_quizzes := t_quizzes class_db @
             [\<lparr>qz_id = 2, qz_title = ''Week 2'', qz_created_at = ''2024-01-06T09:00:00'',
               qz_created_by = Some 1\<rparr>]\<rparr>)
   \<and> filter (\<lambda>q. qq_quiz_id q = 2)
        (t_quiz_questions (snd (quiz_new ''2024-01-06T09:00:00'' class_db quiz_form_no_rows))) = []"
proof -
  have s: "session_user quiz_form_no_rows = Some teacher_demo" "ident_role teacher_demo = ''teacher''"
    "req_method quiz_form_no_rows = POST"
    by (simp_all add: quiz_form_no_rows_def teacher_demo_def)
  have none: "filter (row_filled (form quiz_form_no_rows)) [1, 2, 3, 4, 5] = []"
    by code_simp
  have q: "\<lparr>qz_id = 2, qz_title = ''Week 2'', qz_created_at = ''2024-01-06T09:00:00'',
             qz_created_by = Some 1\<rparr>
           = \<lparr>qz_id = next_rowid (map qz_id (t_quizzes class_db)),
              qz_title = or_else (form quiz_form_no_rows ''title'') ''Untitled Quiz'',
              qz_created_at = ''2024-01-06T09:00:00'', qz_created_by = Some (ident_id teacher_demo)\<rparr>"
    by (simp add: class_db_def next_rowid_def quiz_form_no_rows_def or_else_def teacher_demo_def)
  have ref: "\<forall>q \<in> set (t_quiz_questions class_db). qq_quiz_id q \<in> qz_id ` set (t_quizzes class_db)"
    by (simp add: class_db_def)
  note t = quiz_row_committed_without_questions[OF s q]
  from t none have run: "quiz_new ''2024-01-06T09:00:00'' class_db quiz_form_no_rows
       = (Redirect (Some Quiz_created) To_quizzes,
          class_db\<lparr>t_quizzes := t_quizzes class_db @
             [\<lparr>qz_id = 2, qz_title = ''Week 2'', qz_created_at = ''2024-01-06T09:00:00'',
               qz_created_by = Some 1\<rparr>]\<rparr>)"
    by blast
  from t none ref have zero: "filter (\<lambda>q. qq_quiz_id q = qz_id \<lparr>qz_id = 2, qz_title = ''Week 2'',
            qz_created_at = ''2024-01-06T09:00:00'', qz_created_by = Some 1\<rparr>)
        (t_quiz_questions (snd (quiz_new ''2024-01-06T09:00:00'' class_db quiz_form_no_rows))) = []"
    by blast
  then have "filter (\<lambda>q. qq_quiz_id q = 2)
        (t_quiz_questions (snd (quiz_new ''2024-01-06T09:00:00'' class_db quiz_form_no_rows))) = []"
    by (simp only: quiz.select_convs)
  with none run show ?thesis
    by (intro conjI)
qed

subsection \<open>Announcements\<close>

lemma filter_key_distinct:
  "distinct (map f xs) \<Longrightarrow>
   filter (\<lambda>x. k = f x) xs = (case find (\<lambda>x. k = f x) xs of None \<Rightarrow> [] | Some x \<Rightarrow> [x])"
proof (induction xs)
  case Nil
  show ?case by simp
next
  case (Cons x xs)
  show ?case
  proof (cases "k = f x")
    case True
    with Cons.prems have "\<forall>y \<in> set xs. k \<noteq> f y" by auto
    then have "filter (\<lambda>x. k = f x) xs = []" by (simp add: filter_empty_conv)
    with True show ?thesis by simp
  next
    case False
    with Cons show ?thesis by simp
  qed
qed

lemma left_join_users_pk:
  assumes "distinct (map u_id us)"
  shows "left_join_users fk us rows
           = map (\<lambda>r. (r, map_option u_name (find (\<lambda>u. fk r = Some (u_id u)) us))) rows"
proof -
  have one: "(case filter (\<lambda>u. fk r = Some (u_id u)) us of
               [] \<Rightarrow> [(r, None)] | ms \<Rightarrow> map (\<lambda>u. (r, Some (u_name u))) ms)
             = [(r, map_option u_name (find (\<lambda>u. fk r = Some (u_id u)) us))]" for r
  proof -
    from assms have "distinct (map (\<lambda>u. Some (u_id u)) us)"
      by (simp add: distinct_map inj_on_def)
    from filter_key_distinct[OF this, of "fk r"] show ?thesis
      by (simp split: option.splits)
  qed
  show ?thesis
    unfolding left_join_users_def one by (induction rows) simp_all
qed

text \<open>The sort is a permutation, puts no key before a larger one, and moves no row past a row with the same key.\<close>

lemma order_desc_stable_mset: "mset (order_desc_stable key rows) = mset rows"
  by (simp add: order_desc_stable_def)

lemma order_desc_stable_sorted: "sorted_wrt (\<lambda>x y. key y \<le> key x) (order_desc_stable key rows)"
  using sorted_sort_key[of key "rev rows"]
  by (simp add: order_desc_stable_def sorted_wrt_rev sorted_map)

lemma order_desc_stable_filter:
  "filter (\<lambda>r. key r = k) (order_desc_stable key rows) = filter (\<lambda>r. key r = k) rows"
  by (simp add: order_desc_stable_def rev_filter[symmetric] sort_key_stable)

lemma sorted_wrt_within_keys:
  assumes "\<And>k. sorted_wrt Q (filter (\<lambda>r. key r = k) rows)"
  shows "sorted_wrt (\<lambda>x y. key x = key y \<longrightarrow> Q x y) rows"
  using assms
proof (induction rows)
  case Nil
  show ?case by simp
next
  case (Cons x xs)
  have tail: "sorted_wrt Q (filter (\<lambda>r. key r = k) xs)" for k
    using Cons.prems[of k] by (simp split: if_splits)
  have head: "Q x y" if "y \<in> set xs" "key x = key y" for y
    using Cons.prems[of "key x"] that by simp
  from Cons.IH[OF tail] head show ?case by simp
qed

text \<open>
  C8. With user ids unique (the primary key) and the announcements table in rowid order
  with increasing ids, the announcements page shows every announcement exactly once, each
  with the name of its author (or none when no user has that id); no announcement comes
  before one with a larger \<open>created_at\<close>, and of two announcements with the same
  \<open>created_at\<close> the one with the smaller id comes first.
\<close>

theorem announcements_newest_first_ties_by_id:
  assumes "distinct (map u_id (t_users d))"
    and "sorted_wrt (<) (map an_id (t_announcements d))"
  shows "\<exists>rows. announcements d = Render (Announcements_view rows)
           \<and> mset rows = mset (map (\<lambda>a. (a, map_option u_name
                                 (find (\<lambda>u. an_created_by a = Some (u_id u)) (t_users d))))
                              (t_announcements d))
           \<and> sorted_wrt (\<lambda>x y. an_created_at (fst y) \<le> an_created_at (fst x)) rows
           \<and> sorted_wrt (\<lambda>x y. an_created_at (fst x) = an_created_at (fst y)
                                 \<longrightarrow> an_id (fst x) < an_id (fst y)) rows"
proof -
  let ?key = "\<lambda>r :: announcement \<times> string option. an_created_at (fst r)"
  let ?joined = "map (\<lambda>a. (a, map_option u_name (find (\<lambda>u. an_created_by a = Some (u_id u)) (t_users d))))
                   (t_announcements d)"
  let ?rows = "order_desc_stable ?key ?joined"
  have run: "announcements d = Render (Announcements_view ?rows)"
    by (simp add: announcements_def left_join_users_pk[OF assms(1)])
  have ids: "sorted_wrt (\<lambda>x y. an_id (fst x) < an_id (fst y)) ?joined"
    using assms(2) by (simp add: sorted_wrt_map)
  have "sorted_wrt (\<lambda>x y. an_id (fst x) < an_id (fst y)) (filter (\<lambda>r. ?key r = k) ?rows)" for k
    unfolding order_desc_stable_filter by (rule sorted_wrt_filter[OF ids])
  then have ties: "sorted_wrt (\<lambda>x y. ?key x = ?key y \<longrightarrow> an_id (fst x) < an_id (fst y)) ?rows"
    by (rule sorted_wrt_within_keys)
  show ?thesis
    using run order_desc_stable_mset[of ?key ?joined] order_desc_stable_sorted[of ?key ?joined] ties
    by blast
qed

theorem announcements_newest_first_ties_by_id_witness:
  "distinct (map u_id (t_users tied_announcements_db))
   \<and> sorted_wrt (<) (map an_id (t_announcements tied_announcements_db))
   \<and> announcements tied_announcements_db
     = Render (Announcements_view
         [(\<lparr>an_id = 3, an_title = ''Exam'', an_body = ''Friday'',
            an_created_at = ''2024-01-02T10:00:00'', an_created_by = None\<rparr>, None),
          (\<lparr>an_id = 1, an_title = ''Welcome'', an_body = ''Hello'',
            an_created_at = ''2024-01-01T10:00:00'', an_created_by = Some 1\<rparr>, Some ''Teacher Demo''),
          (\<lparr>an_id = 2, an_title = ''Rooms'', an_body = ''Room 12'',
            an_created_at = ''2024-01-01T10:00:00'', an_created_by = Some 1\<rparr>, Some ''Teacher Demo'')])
   \<and> (\<exists>rows. announcements tied_announcements_db = Render (Announcements_view rows)
           \<and> map (\<lambda>r. an_id (fst r)) rows = [3, 1, 2]
           \<and> sorted_wrt (\<lambda>x y. an_created_at (fst y) \<le> an_created_at (fst x)) rows
           \<and> sorted_wrt (\<lambda>x y. an_created_at (fst x) = an_created_at (fst y)
                                 \<longrightarrow> an_id (fst x) < an_id (fst y)) rows)"
proof -
  have pk: "distinct (map u_id (t_users tied_announcements_db))"
    by (simp add: tied_announcements_db_def class_db_def)
  have rowid: "sorted_wrt (<) (map an_id (t_announcements tied_announcements_db))"
    by (simp add: tied_announcements_db_def)
  have run: "announcements tied_announcements_db
     = Render (Announcements_view
         [(\<lparr>an_id = 3, an_title = ''Exam'', an_body = ''Friday'',
            an_created_at = ''2024-01-02T10:00:00'', an_created_by = None\<rparr>, None),
          (\<lparr>an_id = 1, an_title = ''Welcome'', an_body = ''Hello'',
            an_created_at = ''2024-01-01T10:00:00'', an_created_by = Some 1\<rparr>, Some ''Teacher Demo''),
          (\<lparr>an_id = 2, an_title = ''Rooms'', an_body = ''Room 12'',
            an_created_at = ''2024-01-01T10:00:00'', an_created_by = Some 1\<rparr>, Some ''Teacher Demo'')])"
    by code_simp
  from announcements_newest_first_ties_by_id[OF pk rowid] obtain rows where
    rows: "announcements tied_announcements_db = Render (Announcements_view rows)"
      "sorted_wrt (\<lambda>x y. an_created_at (fst y) \<le> an_created_at (fst x)) rows"
      "sorted_wrt (\<lambda>x y. an_created_at (fst x) = an_created_at (fst y)
                                 \<longrightarrow> an_id (fst x) < an_id (fst y)) rows"
    by blast
  from rows(1) run have ids: "map (\<lambda>r. an_id (fst r)) rows = [3, 1, 2]"
    by auto
  have "\<exists>rows. announcements tied_announcements_db = Render (Announcements_view rows)
           \<and> map (\<lambda>r. an_id (fst r)) rows = [3, 1, 2]
           \<and> sorted_wrt (\<lambda>x y. an_created_at (fst y) \<le> an_created_at (fst x)) rows
           \<and> sorted_wrt (\<lambda>x y. an_created_at (fst x) = an_created_at (fst y)
                                 \<longrightarrow> an_id (fst x) < an_id (fst y)) rows"
    by (rule exI[of _ rows]) (intro conjI rows ids)
  with pk rowid run show ?thesis
    by (intro conjI)
qed

end
